theory Spec2Isabelle
  imports Complex_Main "HOL-Library.Sublist"
begin

section \<open>Bytes and strings\<close>

text \<open>
  A Go string is a sequence of bytes; it is modelled by \<open>string\<close> (a list of 8-bit
  characters). \<open>byte c\<close> is the numeric value of a byte, used wherever the Go code
  compares or subtracts bytes.
\<close>

definition byte :: "char \<Rightarrow> nat" where
  "byte c = of_char c"

definition isDigit :: "char \<Rightarrow> bool" where
  \<comment> \<open>\<open>'0' <= c && c <= '9'\<close>\<close>
  "isDigit c = (48 \<le> byte c \<and> byte c \<le> 57)"

definition newline :: char where
  "newline = CHR 0x0A"

definition tab :: char where
  "tab = CHR 0x09"

section \<open>Package strconv\<close>

text \<open>
  \<open>strconv.NumError\<close> records the failing function, the input and the cause, which is
  one of the two sentinel errors \<open>ErrSyntax\<close> and \<open>ErrRange\<close>.
\<close>

datatype strconv_err = ErrSyntax | ErrRange

datatype NumError = NumError (Func: string) (Num: string) (Err: strconv_err)

definition syntaxError :: "string \<Rightarrow> string \<Rightarrow> NumError" where
  "syntaxError fn str = NumError fn str ErrSyntax"

definition rangeError :: "string \<Rightarrow> string \<Rightarrow> NumError" where
  "rangeError fn str = NumError fn str ErrRange"

text \<open>
  The fast path of \<open>strconv.Atoi\<close> (inputs of 1 to 18 bytes on a 64-bit platform):
  \<^verbatim>\<open>for _, ch := range []byte(s) { ch -= '0'; if ch > 9 { return 0, syntaxError(fnAtoi, s0) }
  n = n*10 + int(ch) }\<close>. The byte subtraction wraps, so \<open>ch > 9\<close> holds exactly for the
  bytes that are not decimal digits. At most 18 digits are accumulated, so \<open>n\<close> stays
  below \<open>10 ^ 18 < 2 ^ 63\<close> and never wraps.
\<close>

fun atoiDigits :: "string \<Rightarrow> nat \<Rightarrow> nat option" where
  "atoiDigits [] n = Some n"
| "atoiDigits (ch # s) n =
     (if \<not> isDigit ch then None else atoiDigits s (n * 10 + (byte ch - 48)))"

text \<open>
  The digit loop of \<open>strconv.ParseUint(s, 10, 64)\<close>. With an explicit base 10 an
  underscore, a letter or any other byte is a syntax error; \<open>cutoff\<close> is
  \<open>maxUint64 / 10 + 1\<close> and \<open>maxVal\<close> is \<open>2 ^ 64 - 1\<close>. The Go test
  \<open>n1 < n || n1 > maxVal\<close> detects the wrap of the 64-bit addition; over \<open>nat\<close> it is
  \<open>n * 10 + d > maxVal\<close>.
\<close>

definition maxVal :: nat where
  "maxVal = 2 ^ 64 - 1"

definition cutoff :: nat where
  "cutoff = maxVal div 10 + 1"

fun parseUintDigits :: "string \<Rightarrow> nat \<Rightarrow> strconv_err + nat" where
  "parseUintDigits [] n = Inr n"
| "parseUintDigits (c # s) n =
     (if \<not> isDigit c then Inl ErrSyntax
      else if n \<ge> cutoff then Inl ErrRange
      else (let n1 = n * 10 + (byte c - 48)
            in if n1 > maxVal then Inl ErrRange else parseUintDigits s n1))"

definition ParseUint :: "string \<Rightarrow> strconv_err + nat" where
  "ParseUint s = (if s = [] then Inl ErrSyntax else parseUintDigits s 0)"

text \<open>
  \<open>strconv.ParseInt(s, 10, 0)\<close> on a platform whose \<open>int\<close> has 64 bits: an optional
  sign, then \<open>ParseUint\<close>, then the range check against \<open>1 << 63\<close>. A range error of
  \<open>ParseUint\<close> leaves \<open>un = maxVal\<close>, which fails the range check as well. The value Go
  returns next to a non-nil error is not used by the caller and is not modelled.
\<close>

definition ParseInt :: "string \<Rightarrow> NumError + int" where
  "ParseInt s0 =
     (case s0 of
        [] \<Rightarrow> Inl (syntaxError ''ParseInt'' s0)
      | c # rest \<Rightarrow>
          (let neg = (c = CHR ''-'');
               s = (if c = CHR ''+'' \<or> c = CHR ''-'' then rest else s0)
           in case ParseUint s of
                Inl ErrSyntax \<Rightarrow> Inl (syntaxError ''ParseInt'' s0)
              | Inl ErrRange \<Rightarrow> Inl (rangeError ''ParseInt'' s0)
              | Inr un \<Rightarrow>
                  if \<not> neg \<and> un \<ge> 2 ^ 63 then Inl (rangeError ''ParseInt'' s0)
                  else if neg \<and> un > 2 ^ 63 then Inl (rangeError ''ParseInt'' s0)
                  else Inr (if neg then - int un else int un)))"

text \<open>
  \<open>strconv.Atoi\<close>: the fast path for short inputs, otherwise \<open>ParseInt\<close> with the
  function name of the error replaced by \<open>Atoi\<close>.
\<close>

definition Atoi :: "string \<Rightarrow> NumError + int" where
  "Atoi s0 =
     (case s0 of
        [] \<Rightarrow> (case ParseInt s0 of Inl e \<Rightarrow> Inl (NumError ''Atoi'' (Num e) (Err e)) | Inr i \<Rightarrow> Inr i)
      | c # rest \<Rightarrow>
          if length s0 < 19 then
            (let s = (if c = CHR ''-'' \<or> c = CHR ''+'' then rest else s0)
             in if s = [] then Inl (syntaxError ''Atoi'' s0)
                else (case atoiDigits s 0 of
                        None \<Rightarrow> Inl (syntaxError ''Atoi'' s0)
                      | Some n \<Rightarrow> Inr (if c = CHR ''-'' then - int n else int n)))
          else (case ParseInt s0 of
                  Inl e \<Rightarrow> Inl (NumError ''Atoi'' (Num e) (Err e))
                | Inr i \<Rightarrow> Inr i))"

text \<open>
  The text of a decimal integer: an optional sign, then one or more decimal digits and
  nothing else.
\<close>

definition integerSyntax :: "string \<Rightarrow> bool" where
  "integerSyntax s =
     (case s of
        [] \<Rightarrow> False
      | c # rest \<Rightarrow>
          (let ds = (if c = CHR ''+'' \<or> c = CHR ''-'' then rest else s)
           in ds \<noteq> [] \<and> list_all isDigit ds))"

section \<open>Go error values\<close>

text \<open>
  The error values that can reach the handler: a \<open>*strconv.NumError\<close>, the sentinel
  \<open>sql.ErrNoRows\<close>, an error of the database driver (known only by its message), and
  an error wrapped by \<open>fmt.Errorf("<prefix>%w", err)\<close>.
\<close>

datatype error =
    NumErr NumError
  | ErrNoRows
  | DriverError string
  | Errorf string error

text \<open>
  The \<open>Error()\<close> text. \<open>NumError.Error\<close> quotes the input with \<open>strconv.Quote\<close>, which
  is taken as a parameter \<open>quote\<close>.
\<close>

fun Error :: "(string \<Rightarrow> string) \<Rightarrow> error \<Rightarrow> string" where
  "Error quote (NumErr e) =
     ''strconv.'' @ Func e @ '': parsing '' @ quote (Num e) @ '': '' @
       (case Err e of ErrSyntax \<Rightarrow> ''invalid syntax'' | ErrRange \<Rightarrow> ''value out of range'')"
| "Error quote ErrNoRows = ''sql: no rows in result set''"
| "Error quote (DriverError m) = m"
| "Error quote (Errorf pre e) = pre @ Error quote e"

section \<open>Package unicode/utf8\<close>

text \<open>
  \<open>utf8.DecodeRuneInString\<close> followed by \<open>utf8.AppendRune\<close>, as \<open>fmt\<close> uses the pair to
  copy a verb: the result is the UTF-8 encoding of the decoded rune and the number of
  bytes consumed. A well-formed sequence decodes to a rune whose encoding is the same
  bytes; anything else decodes to \<open>RuneError\<close> (U+FFFD) with size 1. \<open>first\<close> is the
  table of the package: for a leading byte, the size of the sequence and the accepted
  range of the second byte.
\<close>

definition runeError :: string where
  "runeError = [CHR 0xEF, CHR 0xBF, CHR 0xBD]"

definition first :: "nat \<Rightarrow> (nat \<times> nat \<times> nat) option" where
  "first b =
     (if 0xC2 \<le> b \<and> b \<le> 0xDF then Some (2, 0x80, 0xBF)
      else if b = 0xE0 then Some (3, 0xA0, 0xBF)
      else if 0xE1 \<le> b \<and> b \<le> 0xEC then Some (3, 0x80, 0xBF)
      else if b = 0xED then Some (3, 0x80, 0x9F)
      else if 0xEE \<le> b \<and> b \<le> 0xEF then Some (3, 0x80, 0xBF)
      else if b = 0xF0 then Some (4, 0x90, 0xBF)
      else if 0xF1 \<le> b \<and> b \<le> 0xF3 then Some (4, 0x80, 0xBF)
      else if b = 0xF4 then Some (4, 0x80, 0x8F)
      else None)"

definition contByte :: "char \<Rightarrow> bool" where
  \<comment> \<open>\<open>locb <= c && c <= hicb\<close>\<close>
  "contByte c = (0x80 \<le> byte c \<and> byte c \<le> 0xBF)"

definition decodeRune :: "string \<Rightarrow> string \<times> nat" where
  "decodeRune s =
     (case s of
        [] \<Rightarrow> (runeError, 0)
      | s0 # _ \<Rightarrow>
          if byte s0 < 0x80 then ([s0], 1)
          else (case first (byte s0) of
                  None \<Rightarrow> (runeError, 1)
                | Some (sz, lo, hi) \<Rightarrow>
                    if length s < sz then (runeError, 1)
                    else if byte (s ! 1) < lo \<or> hi < byte (s ! 1) then (runeError, 1)
                    else if sz \<le> 2 then (take 2 s, 2)
                    else if \<not> contByte (s ! 2) then (runeError, 1)
                    else if sz \<le> 3 then (take 3 s, 3)
                    else if \<not> contByte (s ! 3) then (runeError, 1)
                    else (take 4 s, 4)))"

section \<open>Package fmt: formatting with no operands\<close>

text \<open>
  \<open>fmt.Fprintf(w, format)\<close> with an empty operand list runs \<open>doPrintf(format, nil)\<close>. The
  functions below follow \<open>doPrintf\<close> and its helpers \<open>parsenum\<close>, \<open>parseArgNumber\<close> and
  \<open>argNumber\<close> with \<open>len(a) = 0\<close>: no verb ever finds an operand, so the argument
  counter stays 0 and is left out, as is the argument index that \<open>parseArgNumber\<close>
  returns (it is only compared with the number of operands, which is 0).
\<close>

definition isFlag :: "char \<Rightarrow> bool" where
  "isFlag c = (c = CHR ''#'' \<or> c = CHR ''0'' \<or> c = CHR ''+'' \<or> c = CHR ''-'' \<or> c = CHR '' '')"

text \<open>
  \<open>parsenum\<close>: the decimal number at the head of the text, whether there is one, and the
  rest. \<open>tooLarge\<close> is \<open>num > 1e6\<close>; on overflow Go returns \<open>(0, false, end)\<close>, that is
  the scan position jumps to the end of the text.
\<close>

fun parsenumLoop :: "string \<Rightarrow> nat \<Rightarrow> bool \<Rightarrow> nat \<times> bool \<times> string" where
  "parsenumLoop [] num isnum = (num, isnum, [])"
| "parsenumLoop (c # s) num isnum =
     (if isDigit c then
        (if num > 1000000 then (0, False, [])
         else parsenumLoop s (num * 10 + (byte c - 48)) True)
      else (num, isnum, c # s))"

definition parsenum :: "string \<Rightarrow> nat \<times> bool \<times> string" where
  "parsenum s = parsenumLoop s 0 False"

text \<open>
  \<open>parseArgNumber\<close> on a text that starts with \<open>[\<close>: the width of the bracketed index
  and whether it is a well-formed \<open>[n]\<close>.
\<close>

definition parseArgNumber :: "string \<Rightarrow> nat \<times> bool" where
  "parseArgNumber s =
     (if length s < 3 then (1, False)
      else (let inner = takeWhile (\<lambda>c. c \<noteq> CHR '']'') (tl s)
            in if length inner = length (tl s) then (1, False)
               else (case parsenum inner of
                       (num, isnum, rest) \<Rightarrow> (length inner + 2, isnum \<and> rest = []))))"

text \<open>
  \<open>argNumber\<close> with \<open>numArgs = 0\<close>: the rest of the text, \<open>found\<close>, and the new value of
  \<open>p.goodArgNum\<close>. Any bracketed index is out of range, so it clears \<open>goodArgNum\<close>.
\<close>

definition argNumber :: "string \<Rightarrow> bool \<Rightarrow> string \<times> bool \<times> bool" where
  "argNumber s good =
     (case s of
        [] \<Rightarrow> (s, False, good)
      | c # _ \<Rightarrow>
          if c \<noteq> CHR ''['' then (s, False, good)
          else (case parseArgNumber s of (wid, ok) \<Rightarrow> (drop wid s, ok, False)))"

text \<open>
  The width of a verb: \<open>*\<close> asks for an operand, and none is left, so
  \<open>%!(BADWIDTH)\<close> is written; otherwise an optional number. The result is what is
  written, the rest of the format, \<open>afterIndex\<close> and \<open>goodArgNum\<close>.
\<close>

definition doWidth :: "string \<Rightarrow> bool \<Rightarrow> bool \<Rightarrow> string \<times> string \<times> bool \<times> bool" where
  "doWidth s afterIndex good =
     (case s of
        [] \<Rightarrow> ([], [], afterIndex, good)
      | c # t \<Rightarrow>
          if c = CHR ''*'' then (''%!(BADWIDTH)'', t, False, good)
          else (case parsenum s of
                  (num, isnum, r) \<Rightarrow> ([], r, afterIndex, good \<and> \<not> (afterIndex \<and> isnum))))"

text \<open>
  The precision of a verb: a \<open>.\<close> that is not the last byte of the format
  (\<open>i+1 < end && format[i] == '.'\<close>), then an optional index, then \<open>*\<close> or a number. A
  \<open>.\<close> at the very end of the format is left in place and is read as the verb.
\<close>

definition doPrec :: "string \<Rightarrow> bool \<Rightarrow> bool \<Rightarrow> string \<times> string \<times> bool \<times> bool" where
  "doPrec s afterIndex good =
     (case s of
        [] \<Rightarrow> ([], [], afterIndex, good)
      | c # t \<Rightarrow>
          if c \<noteq> CHR ''.'' \<or> t = [] then ([], s, afterIndex, good)
          else (case argNumber t (good \<and> \<not> afterIndex) of
                  (t1, afterIndex1, good1) \<Rightarrow>
                    (case t1 of
                       [] \<Rightarrow> ([], [], afterIndex1, good1)
                     | c1 # t2 \<Rightarrow>
                         if c1 = CHR ''*'' then (''%!(BADPREC)'', t2, False, good1)
                         else (case parsenum t1 of
                                 (num, isnum, r) \<Rightarrow> ([], r, afterIndex1, good1)))))"

text \<open>
  The verb itself: at the end of the format \<open>%!(NOVERB)\<close> is written and the loop
  breaks (\<open>None\<close>); \<open>%\<close> writes a percent sign; any other verb has no operand and is
  reported as \<open>%!v(BADINDEX)\<close> or \<open>%!v(MISSING)\<close>.
\<close>

definition doVerbRune :: "string \<Rightarrow> bool \<Rightarrow> string \<times> string option" where
  "doVerbRune s good =
     (case s of
        [] \<Rightarrow> (''%!(NOVERB)'', None)
      | c # _ \<Rightarrow>
          (case (if byte c < 0x80 then ([c], 1) else decodeRune s) of
             (verb, sz) \<Rightarrow>
               (if verb = ''%'' then ''%''
                else if \<not> good then ''%!'' @ verb @ ''(BADINDEX)''
                else ''%!'' @ verb @ ''(MISSING)'',
                Some (drop sz s))))"

text \<open>
  One verb: the text after a \<open>%\<close>. Flags are skipped, then an optional argument index,
  the width, the precision, an optional argument index again, and the verb.
\<close>

definition doVerb :: "string \<Rightarrow> string \<times> string option" where
  "doVerb s =
     (case argNumber (dropWhile isFlag s) True of (s2, afterIndex2, good2) \<Rightarrow>
      case doWidth s2 afterIndex2 good2 of (outw, s3, afterIndex3, good3) \<Rightarrow>
      case doPrec s3 afterIndex3 good3 of (outp, s4, afterIndex4, good4) \<Rightarrow>
      case (if \<not> afterIndex4
            then (case argNumber s4 good4 of (r, found, good) \<Rightarrow> (r, good))
            else (s4, good4))
      of (s5, good5) \<Rightarrow>
      case doVerbRune s5 good5 of (outv, rest) \<Rightarrow> (outw @ outp @ outv, rest))"

lemma parsenumLoop_length: "parsenumLoop s n b = (num, isnum, r) \<Longrightarrow> length r \<le> length s"
  by (induction s n b rule: parsenumLoop.induct) (auto split: if_splits)

lemma argNumber_length: "argNumber s g = (r, f, g') \<Longrightarrow> length r \<le> length s"
  by (auto simp: argNumber_def split: list.splits if_splits prod.splits)

lemma doWidth_length: "doWidth s a g = (out, r, a', g') \<Longrightarrow> length r \<le> length s"
  by (auto simp: doWidth_def parsenum_def split: list.splits if_splits prod.splits
      dest: parsenumLoop_length)

lemma doPrec_length: "doPrec s a g = (out, r, a', g') \<Longrightarrow> length r \<le> length s"
  by (auto simp: doPrec_def parsenum_def split: list.splits if_splits prod.splits
      dest!: parsenumLoop_length argNumber_length)

lemma doVerbRune_length: "doVerbRune s g = (out, Some r) \<Longrightarrow> length r \<le> length s"
  by (auto simp: doVerbRune_def split: list.splits if_splits prod.splits)

lemma doVerb_length:
  assumes "doVerb s = (out, Some r)"
  shows "length r \<le> length s"
proof -
  obtain s2 a2 g2 where 1: "argNumber (dropWhile isFlag s) True = (s2, a2, g2)"
    by (metis prod_cases3)
  obtain outw s3 a3 g3 where 2: "doWidth s2 a2 g2 = (outw, s3, a3, g3)"
    by (metis prod_cases4)
  obtain outp s4 a4 g4 where 3: "doPrec s3 a3 g3 = (outp, s4, a4, g4)"
    by (metis prod_cases4)
  obtain s5 g5 where 4:
    "(if \<not> a4 then (case argNumber s4 g4 of (r, found, good) \<Rightarrow> (r, good)) else (s4, g4)) = (s5, g5)"
    by (metis surj_pair)
  from assms 1 2 3 4 obtain outv where 5: "doVerbRune s5 g5 = (outv, Some r)"
    by (auto simp: doVerb_def split: prod.splits)
  have "length s2 \<le> length (dropWhile isFlag s)" using 1 by (rule argNumber_length)
  moreover have "length (dropWhile isFlag s) \<le> length s" by (rule length_dropWhile_le)
  moreover have "length s3 \<le> length s2" using 2 by (rule doWidth_length)
  moreover have "length s4 \<le> length s3" using 3 by (rule doPrec_length)
  moreover have "length s5 \<le> length s4"
    using 4 by (auto split: if_splits prod.splits dest: argNumber_length)
  moreover have "length r \<le> length s5" using 5 by (rule doVerbRune_length)
  ultimately show ?thesis by linarith
qed

text \<open>
  \<open>doPrintf\<close> with no operands: text up to the next \<open>%\<close> is copied, then one verb is
  processed; the loop ends with the format or at a verb cut short by the end.
\<close>

function doPrintf0 :: "string \<Rightarrow> string" where
  "doPrintf0 [] = []"
| "doPrintf0 (c # s) =
     (if c \<noteq> CHR ''%'' then c # doPrintf0 s
      else (case doVerb s of
              (out, None) \<Rightarrow> out
            | (out, Some rest) \<Rightarrow> out @ doPrintf0 rest))"
  by pat_completeness auto
termination
  by (relation "measure length") (auto simp: less_Suc_eq_le dest: doVerb_length [OF sym])

text \<open>\<open>fmt.Fprintf(w, format)\<close> with no operands writes \<open>doPrintf0 format\<close>.\<close>

section \<open>Package net/http\<close>

subsection \<open>Headers\<close>

text \<open>
  \<open>http.Header\<close> is a \<open>map[string][]string\<close>. \<open>Set\<close> and \<open>Del\<close> canonicalise the key with
  \<open>textproto.CanonicalMIMEHeaderKey\<close>: a key made of token bytes only gets an upper-case
  letter at the start and after each hyphen and lower-case letters elsewhere; any other
  key is left as it is.
\<close>

type_synonym Header = "string \<rightharpoonup> string list"

definition isLower :: "char \<Rightarrow> bool" where
  "isLower c = (97 \<le> byte c \<and> byte c \<le> 122)"

definition isUpper :: "char \<Rightarrow> bool" where
  "isUpper c = (65 \<le> byte c \<and> byte c \<le> 90)"

definition validHeaderFieldByte :: "char \<Rightarrow> bool" where
  \<open>validHeaderFieldByte c =
     (isDigit c \<or> isLower c \<or> isUpper c \<or> c \<in> set ''!#$%&'*+-.^_`|~'')\<close>

fun canonical :: "bool \<Rightarrow> string \<Rightarrow> string" where
  "canonical upper [] = []"
| "canonical upper (c # s) =
     (let c' = (if upper \<and> isLower c then char_of (byte c - 32)
                else if \<not> upper \<and> isUpper c then char_of (byte c + 32)
                else c)
      in c' # canonical (c' = CHR ''-'') s)"

definition CanonicalMIMEHeaderKey :: "string \<Rightarrow> string" where
  "CanonicalMIMEHeaderKey s = (if list_all validHeaderFieldByte s then canonical True s else s)"

definition Set :: "Header \<Rightarrow> string \<Rightarrow> string \<Rightarrow> Header" where
  "Set h key v = h(CanonicalMIMEHeaderKey key \<mapsto> [v])"

definition Del :: "Header \<Rightarrow> string \<Rightarrow> Header" where
  "Del h key = h(CanonicalMIMEHeaderKey key := None)"

subsection \<open>The response writer\<close>

text \<open>
  The state of an \<open>http.ResponseWriter\<close>: the header map the handler edits, the status
  line and headers once they are written (\<open>WriteHeader\<close> takes a snapshot of the header
  map; only the first call counts), and the body written so far. The first \<open>Write\<close>
  without a status writes status 200, and so does the server when the handler returns
  without writing.
\<close>

record ResponseWriter =
  header :: Header
  wroteHeader :: "(nat \<times> Header) option"
  body :: string

definition newResponseWriter :: ResponseWriter where
  "newResponseWriter = \<lparr>header = Map.empty, wroteHeader = None, body = []\<rparr>"

definition WriteHeader :: "ResponseWriter \<Rightarrow> nat \<Rightarrow> ResponseWriter" where
  "WriteHeader w code =
     (case wroteHeader w of
        None \<Rightarrow> w\<lparr>wroteHeader := Some (code, header w)\<rparr>
      | Some _ \<Rightarrow> w)"

definition Write :: "ResponseWriter \<Rightarrow> string \<Rightarrow> ResponseWriter" where
  "Write w p = (let w' = WriteHeader w 200 in w'\<lparr>body := body w' @ p\<rparr>)"

definition statusCode :: "ResponseWriter \<Rightarrow> nat" where
  "statusCode w = (case wroteHeader w of None \<Rightarrow> 200 | Some (code, h) \<Rightarrow> code)"

definition sentHeader :: "ResponseWriter \<Rightarrow> Header" where
  "sentHeader w = (case wroteHeader w of None \<Rightarrow> header w | Some (code, h) \<Rightarrow> h)"

definition Fprintf :: "ResponseWriter \<Rightarrow> string \<Rightarrow> ResponseWriter" where
  "Fprintf w format = Write w (doPrintf0 format)"

definition Fprintln :: "ResponseWriter \<Rightarrow> string \<Rightarrow> ResponseWriter" where
  "Fprintln w a = Write w (a @ [newline])"

text \<open>
  \<open>http.Error\<close>: deletes \<open>Content-Length\<close>, resets \<open>Content-Type\<close> to plain text, sets
  \<open>X-Content-Type-Options\<close>, writes the status and then the message followed by a
  newline.
\<close>

definition http_Error :: "ResponseWriter \<Rightarrow> string \<Rightarrow> nat \<Rightarrow> ResponseWriter" where
  "http_Error w err code =
     (let h1 = Del (header w) ''Content-Length'';
          h2 = Set h1 ''Content-Type'' ''text/plain; charset=utf-8'';
          h3 = Set h2 ''X-Content-Type-Options'' ''nosniff''
      in Fprintln (WriteHeader (w\<lparr>header := h3\<rparr>) code) err)"

definition StatusBadRequest :: nat where
  "StatusBadRequest = 400"

definition StatusInternalServerError :: nat where
  "StatusInternalServerError = 500"

subsection \<open>Query parameters\<close>

text \<open>
  \<open>r.URL.Query()\<close> is a \<open>url.Values\<close>, a \<open>map[string][]string\<close>; \<open>Get\<close> returns the first
  value of a key, or the empty string when the key is absent.
\<close>

type_synonym Values = "string \<rightharpoonup> string list"

definition Get :: "Values \<Rightarrow> string \<Rightarrow> string" where
  "Get v key = (case v key of None \<Rightarrow> [] | Some [] \<Rightarrow> [] | Some (x # _) \<Rightarrow> x)"

section \<open>The search endpoint (main.go)\<close>

subsection \<open>What the handler is given\<close>

text \<open>
  The handler depends on three things outside of main.go: \<open>strconv.ParseFloat(s, 64)\<close>
  (\<open>'f\<close> is the type of float64 values; the handler does no arithmetic on them),
  \<open>strconv.Quote\<close> (used by the text of a \<open>NumError\<close>), and the database:
  \<open>QueryRowScan q args\<close> is the outcome of \<open>db.QueryRow(q, args...).Scan(&s)\<close>, an error
  or the scanned text.
\<close>

datatype 'f arg = ArgFloat64 'f | ArgInt int

record 'f env =
  ParseFloat :: "string \<Rightarrow> NumError + 'f"
  Quote :: "string \<Rightarrow> string"
  QueryRowScan :: "string \<Rightarrow> 'f arg list \<Rightarrow> error + string"

subsection \<open>The query text\<close>

definition tableName :: string where
  "tableName = ''austinrecycling''"

definition line :: "nat \<Rightarrow> string \<Rightarrow> string" where
  \<comment> \<open>a line of the raw string literal: \<open>n\<close> tabs, the text, a newline\<close>
  "line n s = replicate n tab @ s @ [newline]"

definition queryFormat1 :: string where
  \<open>queryFormat1 =
     line 0 ''SELECT COALESCE(jsonb_agg(t.feature), '[]'::jsonb)'' @
     line 2 ''FROM ('' @
     line 3 ''SELECT jsonb_build_object('' @
     line 4 '''type', 'Feature','' @
     line 4 '''geometry', ST_AsGeoJSON(wkb_geometry)::jsonb,'' @
     line 4 ('''properties', to_jsonb(row) - 'ogc_fid' - 'wkb_geometry'' @ [CHR 0x27]) @
     line 3 '') AS feature'' @
     line 3 ''FROM ('' @
     line 4 ''SELECT *, '' @
     line 5 ''-- Calculate distance in KM'' @
     line 5 ''ST_Distance('' @
     line 6 ''ST_GEOGFromWKB(wkb_geometry), '' @
     line 6 ''ST_SetSRID(ST_MakePoint($1, $2), 4326)::geography '' @
     line 5 '') / 1000 AS distance_km'' @
     replicate 4 tab @ ''FROM ''\<close>

definition queryFormat2 :: string where
  \<open>queryFormat2 =
     [newline] @
     line 4 ''WHERE ST_DWithin('' @
     line 5 ''ST_GEOGFromWKB(wkb_geometry), '' @
     line 5 ''ST_SetSRID(ST_MakePoint($1, $2), 4326)::geography, '' @
     line 5 ''$3 -- Radius in meters'' @
     line 4 '')'' @
     line 4 ''ORDER BY distance_km'' @
     line 4 ''LIMIT 25'' @
     line 3 '') row'' @
     line 2 '') t;'' @
     replicate 2 tab\<close>

definition queryStr :: string where
  \<comment> \<open>\<open>fmt.Sprintf(queryFormat1 + "%v" + queryFormat2, tableName)\<close>\<close>
  "queryStr = queryFormat1 @ tableName @ queryFormat2"

subsection \<open>getGeoJSONFromDatabase\<close>

text \<open>
  The result is the pair that Go returns, as a sum, together with the list of
  \<open>db.QueryRow\<close> calls made (query text and bind arguments), so that what reaches the
  database is part of the model.
\<close>

type_synonym 'f call = "string \<times> 'f arg list"

definition getGeoJSONFromDatabase ::
  "'f env \<Rightarrow> string \<Rightarrow> string \<Rightarrow> string \<Rightarrow> (error + string) \<times> 'f call list" where
  "getGeoJSONFromDatabase env centerLatStr centerLngStr radiusMetersStr =
     (case ParseFloat env centerLatStr of
        Inl err \<Rightarrow> (Inl (Errorf ''invalid latitude: '' (NumErr err)), [])
      | Inr centerLat \<Rightarrow>
     (case ParseFloat env centerLngStr of
        Inl err \<Rightarrow> (Inl (Errorf ''invalid longitude: '' (NumErr err)), [])
      | Inr centerLng \<Rightarrow>
     (case Atoi radiusMetersStr of
        Inl err \<Rightarrow> (Inl (Errorf ''invalid radius: '' (NumErr err)), [])
      | Inr radiusMeters \<Rightarrow>
          (let args = [ArgFloat64 centerLng, ArgFloat64 centerLat, ArgInt radiusMeters]
           in (case QueryRowScan env queryStr args of
                 Inl err \<Rightarrow>
                   if err = ErrNoRows then Inr ''[]''
                   else Inl (Errorf ''error scanning row: '' err)
               | Inr featureCollection \<Rightarrow> Inr featureCollection,
               [(queryStr, args)])))))"

subsection \<open>apiSearchHandler\<close>

text \<open>
  The radius text the handler passes on: \<^verbatim>\<open>radiusMetersStr := r.URL.Query().Get("radius");
  if radiusMetersStr == "" { radiusMetersStr = "10000" }\<close>.
\<close>

definition radiusMetersStr :: "Values \<Rightarrow> string" where
  "radiusMetersStr query = (if Get query ''radius'' = [] then ''10000'' else Get query ''radius'')"

definition apiSearchHandler ::
  "'f env \<Rightarrow> ResponseWriter \<Rightarrow> Values \<Rightarrow> ResponseWriter \<times> 'f call list" where
  \<open>apiSearchHandler env w0 query =
     (let w1 = w0\<lparr>header := Set (header w0) ''Access-Control-Allow-Origin'' ''*''\<rparr>;
          w = w1\<lparr>header := Set (header w1) ''Content-type'' ''application/json''\<rparr>;
          centerLatStr = Get query ''lat'';
          centerLngStr = Get query ''lng''
      in if centerLatStr = [] \<or> centerLngStr = [] then
           (http_Error w ''{"error": "Missing latitude or longitude parameter"}'' StatusBadRequest, [])
         else
           (case getGeoJSONFromDatabase env centerLatStr centerLngStr (radiusMetersStr query) of
              (Inl err, calls) \<Rightarrow>
                (http_Error w
                   (''{"status": "error", "error": "Internal server error during query: '' @
                      Error (Quote env) err @ ''"}'')
                   StatusInternalServerError,
                 calls)
            | (Inr geoJSON, calls) \<Rightarrow>
                (Fprintf w (''{"status": "ok", "features": '' @ geoJSON @ ''}''), calls)))\<close>

text \<open>
  One request served on a fresh response writer: the response, and the calls made to
  the database.
\<close>

definition serve :: "'f env \<Rightarrow> Values \<Rightarrow> ResponseWriter \<times> 'f call list" where
  "serve env query = apiSearchHandler env newResponseWriter query"

text \<open>
  A request passes validation with the values \<open>lat\<close>, \<open>lng\<close> and \<open>radius\<close>: both
  coordinates are present and parse, and the radius text parses.
\<close>

definition validated :: "'f env \<Rightarrow> Values \<Rightarrow> 'f \<Rightarrow> 'f \<Rightarrow> int \<Rightarrow> bool" where
  "validated env query lat lng radius =
     (Get query ''lat'' \<noteq> [] \<and> Get query ''lng'' \<noteq> [] \<and>
      ParseFloat env (Get query ''lat'') = Inr lat \<and>
      ParseFloat env (Get query ''lng'') = Inr lng \<and>
      Atoi (radiusMetersStr query) = Inr radius)"

subsection \<open>The writer after the first two statements of the handler\<close>

text \<open>
  \<open>jsonResponse\<close> is a fresh response writer after the two header assignments at the
  top of the handler; \<open>errorHeader\<close> is the header map that \<open>http.Error\<close> makes of it.
\<close>

definition jsonResponse :: ResponseWriter where
  "jsonResponse =
     \<lparr>header = [''Access-Control-Allow-Origin'' \<mapsto> [''*''], ''Content-Type'' \<mapsto> [''application/json'']],
      wroteHeader = None, body = []\<rparr>"

definition errorHeader :: Header where
  "errorHeader =
     [''Access-Control-Allow-Origin'' \<mapsto> [''*''],
      ''Content-Type'' \<mapsto> [''text/plain; charset=utf-8''],
      ''X-Content-Type-Options'' \<mapsto> [''nosniff'']]"

section \<open>The meaning of the query\<close>

text \<open>
  The query of \<open>queryStr\<close>, clause by clause, over a table given as the list of its rows.
  The functions of the spatial extension are parameters: for a row's \<open>wkb_geometry\<close> and
  the bind values \<open>$1\<close>, \<open>$2\<close>, \<open>$3\<close>,
  \<^item> \<open>ST_Distance g x y\<close> is \<open>ST_Distance(ST_GEOGFromWKB(g),
    ST_SetSRID(ST_MakePoint(x, y), 4326)::geography)\<close>;
  \<^item> \<open>ST_DWithin g x y r\<close> says that \<open>ST_DWithin(ST_GEOGFromWKB(g),
    ST_SetSRID(ST_MakePoint(x, y), 4326)::geography, r)\<close> is true (a row for which it is
    false or null does not pass \<open>WHERE\<close>);
  \<^item> \<open>ST_AsGeoJSON g\<close> is \<open>ST_AsGeoJSON(g)::jsonb\<close>.
  \<open>'d\<close> is the type of the database's double precision values; the query only divides
  them by 1000 and compares them, and the database orders them linearly.
\<close>

record ('g, 'c) table_row =
  ogc_fid :: int
  wkb_geometry :: 'g
  columns :: 'c

record ('g, 'f, 'd, 'j) postgis =
  ST_Distance :: "'g \<Rightarrow> 'f \<Rightarrow> 'f \<Rightarrow> 'd"
  ST_DWithin :: "'g \<Rightarrow> 'f \<Rightarrow> 'f \<Rightarrow> int \<Rightarrow> bool"
  ST_AsGeoJSON :: "'g \<Rightarrow> 'j"

text \<open>A row of the inner subquery \<open>row\<close>: \<open>SELECT *, ... AS distance_km\<close>.\<close>

record ('g, 'c, 'd) row = "('g, 'c) table_row" +
  distance_km :: 'd

definition select_row ::
  "('g, 'f, 'd::{linorder,inverse,numeral}, 'j) postgis \<Rightarrow> 'f \<Rightarrow> 'f \<Rightarrow> ('g, 'c) table_row \<Rightarrow> ('g, 'c, 'd) row" where
  "select_row pg x y t =
     \<lparr>ogc_fid = ogc_fid t, wkb_geometry = wkb_geometry t, columns = columns t,
      distance_km = ST_Distance pg (wkb_geometry t) x y / 1000\<rparr>"

text \<open>
  \<open>FROM austinrecycling WHERE ST_DWithin(...) ORDER BY distance_km LIMIT 25\<close>. The order
  of rows with equal \<open>distance_km\<close> is left open by SQL; \<open>sort_key\<close> keeps them in table
  order.
\<close>

definition row_subquery ::
  "('g, 'f, 'd::{linorder,inverse,numeral}, 'j) postgis \<Rightarrow> ('g, 'c) table_row list \<Rightarrow>
     'f \<Rightarrow> 'f \<Rightarrow> int \<Rightarrow> ('g, 'c, 'd) row list" where
  "row_subquery pg T x y r =
     take 25 (sort_key distance_km
       (map (select_row pg x y) (filter (\<lambda>t. ST_DWithin pg (wkb_geometry t) x y r) T)))"

text \<open>
  \<open>jsonb_build_object('type', 'Feature', 'geometry', ST_AsGeoJSON(wkb_geometry)::jsonb,
  'properties', to_jsonb(row) - 'ogc_fid' - 'wkb_geometry')\<close>: the properties are the
  row without its key and its geometry, that is the other columns and \<open>distance_km\<close>.
\<close>

record ('c, 'd, 'j) feature =
  ftype :: string
  geometry :: 'j
  properties :: "'c \<times> 'd"

definition jsonb_build_object ::
  "('g, 'f, 'd, 'j) postgis \<Rightarrow> ('g, 'c, 'd) row \<Rightarrow> ('c, 'd, 'j) feature" where
  "jsonb_build_object pg rw =
     \<lparr>ftype = ''Feature'', geometry = ST_AsGeoJSON pg (wkb_geometry rw),
      properties = (columns rw, distance_km rw)\<rparr>"

text \<open>
  \<open>jsonb_agg\<close> over no rows is null, otherwise the array of its inputs in the order of
  the subquery; \<open>COALESCE(v, '[]'::jsonb)\<close> replaces null by the empty array.
\<close>

definition jsonb_agg :: "'a list \<Rightarrow> 'a list option" where
  "jsonb_agg xs = (if xs = [] then None else Some xs)"

definition COALESCE :: "'a option \<Rightarrow> 'a \<Rightarrow> 'a" where
  "COALESCE v d = (case v of None \<Rightarrow> d | Some a \<Rightarrow> a)"

definition search_query ::
  "('g, 'f, 'd::{linorder,inverse,numeral}, 'j) postgis \<Rightarrow> ('g, 'c) table_row list \<Rightarrow>
     'f \<Rightarrow> 'f \<Rightarrow> int \<Rightarrow> ('c, 'd, 'j) feature list" where
  "search_query pg T x y r =
     COALESCE (jsonb_agg (map (jsonb_build_object pg) (row_subquery pg T x y r))) []"

text \<open>
  The text of a jsonb array, as scanned into a Go string: the elements separated by a
  comma and a space, in brackets. The text of an element is a parameter.
\<close>

fun jsonb_elems :: "('e \<Rightarrow> string) \<Rightarrow> 'e list \<Rightarrow> string" where
  "jsonb_elems out [] = []"
| "jsonb_elems out [e] = out e"
| "jsonb_elems out (e # es) = out e @ '', '' @ jsonb_elems out es"

definition jsonb_out :: "('e \<Rightarrow> string) \<Rightarrow> 'e list \<Rightarrow> string" where
  "jsonb_out out es = ''['' @ jsonb_elems out es @ '']''"

section \<open>Start-up (main.go)\<close>

text \<open>
  What \<open>main\<close> and \<open>initDB\<close> do is a trace of events. The process is given its
  environment variables, the outcome of \<open>sql.Open\<close> and of \<open>db.Ping\<close> (\<open>None\<close> for a nil
  error), and the outcome of \<open>http.ListenAndServe\<close>: the error it returns, or \<open>None\<close>
  when it serves forever. \<open>log.Fatalf\<close> and \<open>log.Fatal\<close> log the message and call
  \<open>os.Exit(1)\<close>.
\<close>

datatype event =
    Log string
  | Exit nat
  | SqlOpen string string
  | SetMaxIdleConns nat
  | SetMaxOpenConns nat
  | SetConnMaxLifetime nat
  | DbPing
  | Handle string
  | HandleFunc string
  | Listen string

record process =
  Getenv :: "string \<Rightarrow> string"
  sql_Open :: "string \<Rightarrow> string \<Rightarrow> error option"
  Ping :: "error option"
  ListenAndServe :: "string \<Rightarrow> error option"
  ErrQuote :: "string \<Rightarrow> string"

definition connectionString :: "process \<Rightarrow> string" where
  "connectionString p =
     (let instanceConnectionName = Getenv p ''INSTANCE_CONNECTION_NAME'';
          dbUser = (if Getenv p ''DB_USER'' = [] then ''postgres'' else Getenv p ''DB_USER'');
          dbPassword = Getenv p ''DB_PASSWORD'';
          dbName = (if Getenv p ''DB_NAME'' = [] then ''recycling_db'' else Getenv p ''DB_NAME'')
      in if instanceConnectionName \<noteq> [] then
           ''user='' @ dbUser @ '' password='' @ dbPassword @ '' database='' @ dbName @
             '' host=/cloudsql/'' @ instanceConnectionName
         else
           ''host=127.0.0.1 port=5432 user='' @ dbUser @ '' password='' @ dbPassword @
             '' database='' @ dbName @ '' sslmode=disable'')"

definition initDB :: "process \<Rightarrow> error option \<times> event list" where
  "initDB p =
     (let dbName = (if Getenv p ''DB_NAME'' = [] then ''recycling_db'' else Getenv p ''DB_NAME'');
          warn = (if Getenv p ''INSTANCE_CONNECTION_NAME'' = [] \<and> Getenv p ''DB_PASSWORD'' = []
                  then [Log ''WARNING: DB_PASSWORD environment variable not set. Assuming unsecure local connection.'']
                  else []);
          opened = warn @ [SqlOpen ''postgres'' (connectionString p)]
      in case sql_Open p ''postgres'' (connectionString p) of
           Some err \<Rightarrow> (Some (Errorf ''sql.Open failed: '' err), opened)
         | None \<Rightarrow>
             (let pooled = opened @
                    [SetMaxIdleConns 5, SetMaxOpenConns 7, SetConnMaxLifetime 1800, DbPing]
              in case Ping p of
                   Some err \<Rightarrow> (Some (Errorf ''db.Ping failed: '' err), pooled)
                 | None \<Rightarrow>
                     (None, pooled @ [Log (''Successfully connected to database: '' @ dbName)])))"

definition main :: "process \<Rightarrow> event list" where
  "main p =
     (case initDB p of
        (Some err, tr) \<Rightarrow>
          tr @ [Log (''Failed to initialize database: '' @ Error (ErrQuote p) err), Exit 1]
      | (None, tr) \<Rightarrow>
          (let port = (if Getenv p ''PORT'' = [] then ''8080'' else Getenv p ''PORT'');
               serving = tr @ [Handle ''/'', HandleFunc ''/api/search'',
                 Log (''Store Locator Backend (Go) listening on port '' @ port),
                 Listen ('':'' @ port)]
           in case ListenAndServe p ('':'' @ port) of
                Some err \<Rightarrow> serving @ [Log (Error (ErrQuote p) err), Exit 1]
              | None \<Rightarrow> serving))"

text \<open>The events by which the process starts to serve requests.\<close>

fun serves :: "event \<Rightarrow> bool" where
  "serves (Handle _) = True"
| "serves (HandleFunc _) = True"
| "serves (Listen _) = True"
| "serves _ = False"

section \<open>Example inputs\<close>

text \<open>
  Concrete inputs on which the model is evaluated below. \<open>float64\<close> lists the values a
  Go float64 can hold: a finite number, the two infinities and NaN. \<open>exampleParseFloat\<close>
  answers the five inputs used below as \<open>strconv.ParseFloat\<close> does; it answers every
  other input with a syntax error, and no example relies on that. \<open>exampleQuote\<close> is
  \<open>strconv.Quote\<close> on printable ASCII text without quotes and backslashes.
\<close>

datatype float64 = Float real | PosInf | NegInf | NaN

definition exampleParseFloat :: "string \<Rightarrow> NumError + float64" where
  "exampleParseFloat s =
     (if s = ''30.25'' then Inr (Float 30.25)
      else if s = ''-97.75'' then Inr (Float (- 97.75))
      else if s = ''999'' then Inr (Float 999)
      else if s = ''Inf'' then Inr PosInf
      else if s = ''NaN'' then Inr NaN
      else Inl (syntaxError ''ParseFloat'' s))"

definition exampleQuote :: "string \<Rightarrow> string" where
  "exampleQuote s = [CHR 0x22] @ s @ [CHR 0x22]"

definition example_env :: "(string \<Rightarrow> float64 arg list \<Rightarrow> error + string) \<Rightarrow> float64 env" where
  "example_env db = \<lparr>ParseFloat = exampleParseFloat, Quote = exampleQuote, QueryRowScan = db\<rparr>"

definition request :: "(string \<times> string) list \<Rightarrow> Values" where
  \<comment> \<open>the query parameters \<open>k1=v1&k2=v2...\<close>, each key given once\<close>
  "request kvs = map_of (map (\<lambda>(k, v). (k, [v])) kvs)"

text \<open>
  A toy spatial extension on a line: a geometry is a position in metres, the point
  \<open>(x, y)\<close> lies at \<open>x\<close>, and the distance is the absolute difference. The table has
  three rows, at 5000 m, 100 m and 20000 m.
\<close>

definition coord :: "float64 \<Rightarrow> real" where
  "coord v = (case v of Float a \<Rightarrow> a | _ \<Rightarrow> 0)"

definition example_pg :: "(real, float64, real, real) postgis" where
  "example_pg =
     \<lparr>ST_Distance = (\<lambda>g x y. \<bar>g - coord x\<bar>),
      ST_DWithin = (\<lambda>g x y r. \<bar>g - coord x\<bar> \<le> real_of_int r),
      ST_AsGeoJSON = (\<lambda>g. g)\<rparr>"

definition example_table :: "(real, string) table_row list" where
  "example_table =
     [\<lparr>ogc_fid = 1, wkb_geometry = 5000, columns = ''A''\<rparr>,
      \<lparr>ogc_fid = 2, wkb_geometry = 100, columns = ''B''\<rparr>,
      \<lparr>ogc_fid = 3, wkb_geometry = 20000, columns = ''C''\<rparr>]"

definition example_out :: "(string, real, real) feature \<Rightarrow> string" where
  "example_out f = [CHR 0x22] @ fst (properties f) @ [CHR 0x22]"

text \<open>A database that answers the search query from \<open>example_table\<close>.\<close>

definition example_db :: "string \<Rightarrow> float64 arg list \<Rightarrow> error + string" where
  "example_db q args =
     (case args of
        [ArgFloat64 x, ArgFloat64 y, ArgInt r] \<Rightarrow>
          Inr (jsonb_out example_out (search_query example_pg example_table x y r))
      | _ \<Rightarrow> Inl (DriverError ''pq: wrong number of parameters''))"

text \<open>A process whose database refuses the connection check.\<close>

definition example_process :: process where
  "example_process =
     \<lparr>Getenv = (\<lambda>name. []),
      sql_Open = (\<lambda>driver dsn. None),
      Ping = Some (DriverError ''dial tcp 127.0.0.1:5432: connect: connection refused''),
      ListenAndServe = (\<lambda>addr. None),
      ErrQuote = exampleQuote\<rparr>"

section \<open>Properties of the library functions\<close>

lemma doPrintf0_plain: "CHR ''%'' \<notin> set s \<Longrightarrow> doPrintf0 s = s"
  by (induction s) auto

lemma canonical_allow_origin:
  "CanonicalMIMEHeaderKey ''Access-Control-Allow-Origin'' = ''Access-Control-Allow-Origin''"
  by code_simp

lemma canonical_content_type_lower:
  "CanonicalMIMEHeaderKey ''Content-type'' = ''Content-Type''"
  by code_simp

lemma canonical_content_type:
  "CanonicalMIMEHeaderKey ''Content-Type'' = ''Content-Type''"
  by code_simp

lemma canonical_content_length:
  "CanonicalMIMEHeaderKey ''Content-Length'' = ''Content-Length''"
  by code_simp

lemma canonical_nosniff:
  "CanonicalMIMEHeaderKey ''X-Content-Type-Options'' = ''X-Content-Type-Options''"
  by code_simp

lemmas canonical_keys =
  canonical_allow_origin canonical_content_type_lower canonical_content_type
  canonical_content_length canonical_nosniff

subsection \<open>strconv.Atoi\<close>

lemma Atoi_default: "Atoi ''10000'' = Inr 10000"
  by (simp add: Atoi_def isDigit_def byte_def)

lemma Atoi_abc: "Atoi ''abc'' = Inl (NumError ''Atoi'' ''abc'' ErrSyntax)"
  by (simp add: Atoi_def isDigit_def byte_def syntaxError_def)

lemma Atoi_decimal_point: "Atoi ''10.5'' = Inl (NumError ''Atoi'' ''10.5'' ErrSyntax)"
  by (simp add: Atoi_def isDigit_def byte_def syntaxError_def)

text \<open>
  The texts \<open>strconv.Atoi\<close> accepts: an optional sign and then one or more decimal
  digits, nothing else.
\<close>

lemma atoiDigits_digits: "atoiDigits s n = Some m \<Longrightarrow> list_all isDigit s"
  by (induction s arbitrary: n) (auto split: if_splits)

lemma parseUintDigits_digits: "parseUintDigits s n = Inr m \<Longrightarrow> list_all isDigit s"
  by (induction s arbitrary: n) (auto simp: Let_def split: if_splits)

lemma ParseInt_integerSyntax: "ParseInt s = Inr n \<Longrightarrow> integerSyntax s"
  by (auto simp: ParseInt_def ParseUint_def integerSyntax_def Let_def
      split: list.splits sum.splits strconv_err.splits if_splits
      dest: parseUintDigits_digits)

lemma Atoi_integerSyntax: "Atoi s = Inr n \<Longrightarrow> integerSyntax s"
  by (auto simp: Atoi_def integerSyntax_def Let_def
      split: list.splits sum.splits option.splits if_splits
      dest: atoiDigits_digits ParseInt_integerSyntax [unfolded integerSyntax_def])

lemma not_integerSyntax_Atoi: "\<not> integerSyntax s \<Longrightarrow> \<exists>e. Atoi s = Inl e"
  by (metis Atoi_integerSyntax sum.exhaust)

section \<open>The three ways a request ends\<close>

text \<open>The handler on a fresh response writer, spelled out for each of its exits.\<close>

lemma http_Error_jsonResponse:
  "http_Error jsonResponse msg code =
     \<lparr>header = errorHeader, wroteHeader = Some (code, errorHeader), body = msg @ [newline]\<rparr>"
  by (auto simp: http_Error_def jsonResponse_def errorHeader_def Fprintln_def Write_def
      WriteHeader_def Set_def Del_def canonical_keys Let_def fun_upd_def)

lemma Fprintf_jsonResponse:
  "Fprintf jsonResponse format =
     \<lparr>header = header jsonResponse, wroteHeader = Some (200, header jsonResponse),
      body = doPrintf0 format\<rparr>"
  by (simp add: Fprintf_def jsonResponse_def Write_def WriteHeader_def Let_def)

lemma statusCode_http_Error: "statusCode (http_Error jsonResponse msg code) = code"
  by (simp add: http_Error_jsonResponse statusCode_def)

lemma body_http_Error: "body (http_Error jsonResponse msg code) = msg @ [newline]"
  by (simp add: http_Error_jsonResponse)

lemma sentHeader_http_Error: "sentHeader (http_Error jsonResponse msg code) = errorHeader"
  by (simp add: http_Error_jsonResponse sentHeader_def)

lemma statusCode_Fprintf: "statusCode (Fprintf jsonResponse format) = 200"
  by (simp add: Fprintf_jsonResponse statusCode_def)

lemma body_Fprintf: "body (Fprintf jsonResponse format) = doPrintf0 format"
  by (simp add: Fprintf_jsonResponse)

lemma sentHeader_Fprintf: "sentHeader (Fprintf jsonResponse format) = header jsonResponse"
  by (simp add: Fprintf_jsonResponse sentHeader_def)

lemma errorHeader_values:
  "errorHeader ''Access-Control-Allow-Origin'' = Some [''*'']"
  "errorHeader ''Content-Type'' = Some [''text/plain; charset=utf-8'']"
  by (simp_all add: errorHeader_def)

lemma jsonHeader_values:
  "header jsonResponse ''Access-Control-Allow-Origin'' = Some [''*'']"
  "header jsonResponse ''Content-Type'' = Some [''application/json'']"
  by (simp_all add: jsonResponse_def)

lemma serve_unfold:
  \<open>serve env query =
     (if Get query ''lat'' = [] \<or> Get query ''lng'' = [] then
        (http_Error jsonResponse ''{"error": "Missing latitude or longitude parameter"}'' 400, [])
      else
        (case getGeoJSONFromDatabase env (Get query ''lat'') (Get query ''lng'') (radiusMetersStr query) of
           (Inl err, calls) \<Rightarrow>
             (http_Error jsonResponse
                (''{"status": "error", "error": "Internal server error during query: '' @
                   Error (Quote env) err @ ''"}'') 500, calls)
         | (Inr geoJSON, calls) \<Rightarrow>
             (Fprintf jsonResponse (''{"status": "ok", "features": '' @ geoJSON @ ''}''), calls)))\<close>
  by (simp add: serve_def apiSearchHandler_def newResponseWriter_def jsonResponse_def Set_def
      canonical_keys Let_def StatusBadRequest_def StatusInternalServerError_def
      split: prod.split sum.split)

lemma serve_missing:
  assumes "Get query ''lat'' = [] \<or> Get query ''lng'' = []"
  shows \<open>serve env query =
    (http_Error jsonResponse ''{"error": "Missing latitude or longitude parameter"}'' 400, [])\<close>
  using assms by (simp add: serve_unfold)

lemma serve_invalid:
  assumes "Get query ''lat'' \<noteq> []" "Get query ''lng'' \<noteq> []"
    and "getGeoJSONFromDatabase env (Get query ''lat'') (Get query ''lng'') (radiusMetersStr query)
           = (Inl err, calls)"
  shows \<open>serve env query =
    (http_Error jsonResponse
       (''{"status": "error", "error": "Internal server error during query: '' @
          Error (Quote env) err @ ''"}'') 500, calls)\<close>
  using assms by (simp add: serve_unfold)

lemma serve_ok:
  assumes "Get query ''lat'' \<noteq> []" "Get query ''lng'' \<noteq> []"
    and "getGeoJSONFromDatabase env (Get query ''lat'') (Get query ''lng'') (radiusMetersStr query)
           = (Inr geoJSON, calls)"
  shows \<open>serve env query =
    (Fprintf jsonResponse (''{"status": "ok", "features": '' @ geoJSON @ ''}''), calls)\<close>
  using assms by (simp add: serve_unfold)

lemma serve_cases:
  obtains (error) msg code calls where
      "serve env query = (http_Error jsonResponse msg code, calls)" "code = 400 \<or> code = 500"
    | (ok) format calls where "serve env query = (Fprintf jsonResponse format, calls)"
proof (cases "Get query ''lat'' = [] \<or> Get query ''lng'' = []")
  case True
  then show ?thesis using error [OF serve_missing] by blast
next
  case False
  obtain res calls where g:
    "getGeoJSONFromDatabase env (Get query ''lat'') (Get query ''lng'') (radiusMetersStr query)
       = (res, calls)"
    by (metis surj_pair)
  show ?thesis
  proof (cases res)
    case (Inl err)
    with False g show ?thesis using error [OF serve_invalid] by blast
  next
    case (Inr geoJSON)
    with False g show ?thesis using ok [OF serve_ok] by blast
  qed
qed

lemma getGeoJSON_validated:
  assumes "ParseFloat env latS = Inr lat" "ParseFloat env lngS = Inr lng" "Atoi radS = Inr rad"
  shows "getGeoJSONFromDatabase env latS lngS radS =
     (case QueryRowScan env queryStr [ArgFloat64 lng, ArgFloat64 lat, ArgInt rad] of
        Inl err \<Rightarrow> if err = ErrNoRows then Inr ''[]'' else Inl (Errorf ''error scanning row: '' err)
      | Inr featureCollection \<Rightarrow> Inr featureCollection,
      [(queryStr, [ArgFloat64 lng, ArgFloat64 lat, ArgInt rad])])"
  using assms by (simp add: getGeoJSONFromDatabase_def Let_def)

lemma getGeoJSON_invalid:
  assumes "(\<exists>e. ParseFloat env latS = Inl e) \<or> (\<exists>e. ParseFloat env lngS = Inl e) \<or> (\<exists>e. Atoi radS = Inl e)"
  shows "\<exists>err. getGeoJSONFromDatabase env latS lngS radS = (Inl err, [])"
  using assms by (auto simp: getGeoJSONFromDatabase_def split: sum.splits)

lemma serve_validated:
  assumes "validated env query lat lng rad"
  shows \<open>serve env query =
    (case QueryRowScan env queryStr [ArgFloat64 lng, ArgFloat64 lat, ArgInt rad] of
       Inl err \<Rightarrow>
         if err = ErrNoRows then
           (Fprintf jsonResponse (''{"status": "ok", "features": '' @ ''[]'' @ ''}''),
            [(queryStr, [ArgFloat64 lng, ArgFloat64 lat, ArgInt rad])])
         else
           (http_Error jsonResponse
              (''{"status": "error", "error": "Internal server error during query: '' @
                 Error (Quote env) (Errorf ''error scanning row: '' err) @ ''"}'') 500,
            [(queryStr, [ArgFloat64 lng, ArgFloat64 lat, ArgInt rad])])
     | Inr geoJSON \<Rightarrow>
         (Fprintf jsonResponse (''{"status": "ok", "features": '' @ geoJSON @ ''}''),
          [(queryStr, [ArgFloat64 lng, ArgFloat64 lat, ArgInt rad])]))\<close>
proof -
  from assms have p: "Get query ''lat'' \<noteq> []" "Get query ''lng'' \<noteq> []"
    and v: "ParseFloat env (Get query ''lat'') = Inr lat"
      "ParseFloat env (Get query ''lng'') = Inr lng"
      "Atoi (radiusMetersStr query) = Inr rad"
    by (simp_all add: validated_def)
  show ?thesis
    using p by (simp add: serve_unfold getGeoJSON_validated [OF v] split: sum.split)
qed

lemma ok_body_plain:
  assumes "CHR ''%'' \<notin> set payload"
  shows \<open>doPrintf0 (''{"status": "ok", "features": '' @ payload @ ''}'') =
           ''{"status": "ok", "features": '' @ payload @ ''}''\<close>
  using assms by (intro doPrintf0_plain) simp

subsection \<open>What reaches the database\<close>

lemma getGeoJSON_calls:
  "snd (getGeoJSONFromDatabase env latS lngS radS) = [] \<or>
   (\<exists>lat lng rad. snd (getGeoJSONFromDatabase env latS lngS radS) =
      [(queryStr, [ArgFloat64 lng, ArgFloat64 lat, ArgInt rad])])"
  by (simp add: getGeoJSONFromDatabase_def Let_def split: sum.split)

lemma serve_calls:
  "snd (serve env query) = [] \<or>
   (\<exists>lat lng rad. snd (serve env query) = [(queryStr, [ArgFloat64 lng, ArgFloat64 lat, ArgInt rad])])"
proof (cases "Get query ''lat'' = [] \<or> Get query ''lng'' = []")
  case True
  then show ?thesis by (simp add: serve_missing)
next
  case False
  obtain res calls where g:
    "getGeoJSONFromDatabase env (Get query ''lat'') (Get query ''lng'') (radiusMetersStr query)
       = (res, calls)"
    by (metis surj_pair)
  have "snd (serve env query) = calls"
    using False g by (cases res) (simp_all add: serve_invalid serve_ok)
  then show ?thesis
    using getGeoJSON_calls [of env "Get query ''lat''" "Get query ''lng''" "radiusMetersStr query"] g
    by simp
qed

lemma serve_validated_calls:
  assumes "validated env query lat lng rad"
  shows "snd (serve env query) = [(queryStr, [ArgFloat64 lng, ArgFloat64 lat, ArgInt rad])]"
  by (simp add: serve_validated [OF assms] split: sum.split)

subsection \<open>Evaluating the examples\<close>

lemmas example_simps =
  example_env_def exampleParseFloat_def exampleQuote_def request_def Get_def radiusMetersStr_def
  syntaxError_def

section \<open>Parameters that do not parse\<close>

text \<open>
  Claim C1 asks for status 400 when \<open>lat\<close>, \<open>lng\<close> or \<open>radius\<close> is present and does not
  parse. The handler answers such a request differently: the parse error comes back from
  \<open>getGeoJSONFromDatabase\<close> like a database error, and the response has status 500.
  What does hold is the second half of the claim: the database is not called, so
  nothing falls back to a default value.
\<close>

theorem unparsable_parameter_is_server_error:
  assumes "Get query ''lat'' \<noteq> []" "Get query ''lng'' \<noteq> []"
    and "(\<exists>e. ParseFloat env (Get query ''lat'') = Inl e) \<or>
         (\<exists>e. ParseFloat env (Get query ''lng'') = Inl e) \<or>
         (\<exists>e. Atoi (radiusMetersStr query) = Inl e)"
  shows "statusCode (fst (serve env query)) = 500 \<and> snd (serve env query) = []"
proof -
  obtain err where
    "getGeoJSONFromDatabase env (Get query ''lat'') (Get query ''lng'') (radiusMetersStr query)
       = (Inl err, [])"
    using getGeoJSON_invalid [OF assms(3)] by blast
  then show ?thesis
    using assms(1,2) by (simp add: serve_invalid statusCode_http_Error)
qed

theorem unparsable_parameter_is_server_error_witness:
  "statusCode (fst (serve (example_env example_db)
     (request [(''lat'', ''30.25''), (''lng'', ''-97.75''), (''radius'', ''abc'')]))) = 500 \<and>
   snd (serve (example_env example_db)
     (request [(''lat'', ''30.25''), (''lng'', ''-97.75''), (''radius'', ''abc'')])) = []"
  using unparsable_parameter_is_server_error
    [of "request [(''lat'', ''30.25''), (''lng'', ''-97.75''), (''radius'', ''abc'')]"
        "example_env example_db"]
  by (simp add: example_simps Atoi_abc)

section \<open>The response envelope\<close>

text \<open>
  Claim C2 says that every error body is \<open>{"status":"error","error": "<message>"}\<close>. The
  body of the 400 response is another text: it has an \<open>error\<close> field only, and the word
  \<open>status\<close> does not occur in it.
\<close>

theorem error_body_without_status:
  \<open>statusCode (fst (serve (example_env example_db) (request [(''lng'', ''-97.75'')]))) = 400 \<and>
    body (fst (serve (example_env example_db) (request [(''lng'', ''-97.75'')]))) =
      ''{"error": "Missing latitude or longitude parameter"}'' @ [newline] \<and>
    \<not> sublist ''status'' (body (fst (serve (example_env example_db) (request [(''lng'', ''-97.75'')]))))\<close>
proof -
  have m: "Get (request [(''lng'', ''-97.75'')]) ''lat'' = [] \<or> Get (request [(''lng'', ''-97.75'')]) ''lng'' = []"
    by (simp add: request_def Get_def)
  have n: \<open>\<not> sublist ''status'' (''{"error": "Missing latitude or longitude parameter"}'' @ [newline])\<close>
    by code_simp
  show ?thesis
    using n by (simp add: serve_missing [OF m] statusCode_http_Error body_http_Error)
qed

text \<open>
  A payload with a percent sign does not come out as it went in: the handler passes the
  whole response as the format of \<open>fmt.Fprintf\<close>, which reads \<open>% o\<close> as a verb without
  operand.
\<close>

lemma percent_in_payload_is_formatted:
  \<open>body (fst (serve (example_env (\<lambda>q args. Inr ''[{"name": "50% off"}]''))
     (request [(''lat'', ''30.25''), (''lng'', ''-97.75'')]))) =
   ''{"status": "ok", "features": [{"name": "50%!o(MISSING)ff"}]}''\<close>
proof -
  have v: "validated (example_env (\<lambda>q args. Inr ''[{\"name\": \"50% off\"}]''))
      (request [(''lat'', ''30.25''), (''lng'', ''-97.75'')]) (Float 30.25) (Float (- 97.75)) 10000"
    by (simp add: validated_def example_simps Atoi_default)
  have s: \<open>fst (serve (example_env (\<lambda>q args. Inr ''[{"name": "50% off"}]''))
      (request [(''lat'', ''30.25''), (''lng'', ''-97.75'')])) =
      Fprintf jsonResponse (''{"status": "ok", "features": '' @ ''[{"name": "50% off"}]'' @ ''}'')\<close>
    using serve_validated [OF v] by (simp add: example_env_def)
  have d: \<open>doPrintf0 (''{"status": "ok", "features": '' @ ''[{"name": "50% off"}]'' @ ''}'') =
      ''{"status": "ok", "features": [{"name": "50%!o(MISSING)ff"}]}''\<close>
    by code_simp
  show ?thesis
    by (simp only: s body_Fprintf d)
qed

text \<open>
  Claim C2, amended. The response is one of three texts.
  \<^item> When \<open>lat\<close> or \<open>lng\<close> is missing: status 400 and the body
    \<open>{"error": "Missing latitude or longitude parameter"}\<close> followed by a newline (no
    \<open>status\<close> field).
  \<^item> When the request passes validation and the query yields a payload without a percent
    sign, or no row: status 200 and the body \<open>{"status": "ok", "features": <payload>}\<close>
    with the payload unchanged (\<open>[]\<close> for no row).
  \<^item> When the request passes validation and the query fails otherwise: status 500 and
    the body \<open>{"status": "error", "error": "Internal server error during query: error
    scanning row: <message>"}\<close> followed by a newline.
\<close>

theorem response_envelope:
  \<open>(Get query ''lat'' = [] \<or> Get query ''lng'' = [] \<longrightarrow>
      statusCode (fst (serve env query)) = 400 \<and>
      body (fst (serve env query)) =
        ''{"error": "Missing latitude or longitude parameter"}'' @ [newline]) \<and>
   (validated env query lat lng rad \<and>
    QueryRowScan env queryStr [ArgFloat64 lng, ArgFloat64 lat, ArgInt rad] = Inr payload \<and>
    CHR ''%'' \<notin> set payload \<longrightarrow>
      statusCode (fst (serve env query)) = 200 \<and>
      body (fst (serve env query)) = ''{"status": "ok", "features": '' @ payload @ ''}'') \<and>
   (validated env query lat lng rad \<and>
    QueryRowScan env queryStr [ArgFloat64 lng, ArgFloat64 lat, ArgInt rad] = Inl ErrNoRows \<longrightarrow>
      statusCode (fst (serve env query)) = 200 \<and>
      body (fst (serve env query)) = ''{"status": "ok", "features": []}'') \<and>
   (validated env query lat lng rad \<and>
    QueryRowScan env queryStr [ArgFloat64 lng, ArgFloat64 lat, ArgInt rad] = Inl err \<and>
    err \<noteq> ErrNoRows \<longrightarrow>
      statusCode (fst (serve env query)) = 500 \<and>
      body (fst (serve env query)) =
        ''{"status": "error", "error": "Internal server error during query: error scanning row: '' @
          Error (Quote env) err @ ''"}'' @ [newline])\<close>
proof (intro conjI impI)
  assume "Get query ''lat'' = [] \<or> Get query ''lng'' = []"
  then show "statusCode (fst (serve env query)) = 400"
    and \<open>body (fst (serve env query)) =
        ''{"error": "Missing latitude or longitude parameter"}'' @ [newline]\<close>
    by (simp_all add: serve_missing statusCode_http_Error body_http_Error)
next
  assume a: "validated env query lat lng rad \<and>
    QueryRowScan env queryStr [ArgFloat64 lng, ArgFloat64 lat, ArgInt rad] = Inr payload \<and>
    CHR ''%'' \<notin> set payload"
  then have s: \<open>fst (serve env query) =
      Fprintf jsonResponse (''{"status": "ok", "features": '' @ payload @ ''}'')\<close>
    using serve_validated [of env query lat lng rad] by simp
  show "statusCode (fst (serve env query)) = 200"
    by (simp add: s statusCode_Fprintf)
  from a have "CHR ''%'' \<notin> set payload" by simp
  then show \<open>body (fst (serve env query)) = ''{"status": "ok", "features": '' @ payload @ ''}''\<close>
    unfolding s body_Fprintf by (rule ok_body_plain)
next
  assume a: "validated env query lat lng rad \<and>
    QueryRowScan env queryStr [ArgFloat64 lng, ArgFloat64 lat, ArgInt rad] = Inl ErrNoRows"
  then have s: \<open>fst (serve env query) =
      Fprintf jsonResponse (''{"status": "ok", "features": '' @ ''[]'' @ ''}'')\<close>
    using serve_validated [of env query lat lng rad] by simp
  show "statusCode (fst (serve env query)) = 200"
    by (simp only: s statusCode_Fprintf)
  have \<open>doPrintf0 (''{"status": "ok", "features": '' @ ''[]'' @ ''}'') =
      ''{"status": "ok", "features": '' @ ''[]'' @ ''}''\<close>
    by (rule ok_body_plain) simp
  then show \<open>body (fst (serve env query)) = ''{"status": "ok", "features": []}''\<close>
    by (simp only: s body_Fprintf) simp
next
  assume a: "validated env query lat lng rad \<and>
    QueryRowScan env queryStr [ArgFloat64 lng, ArgFloat64 lat, ArgInt rad] = Inl err \<and>
    err \<noteq> ErrNoRows"
  then have s: \<open>fst (serve env query) =
      http_Error jsonResponse
        (''{"status": "error", "error": "Internal server error during query: '' @
           Error (Quote env) (Errorf ''error scanning row: '' err) @ ''"}'') 500\<close>
    using serve_validated [of env query lat lng rad] by simp
  show "statusCode (fst (serve env query)) = 500"
    by (simp add: s statusCode_http_Error)
  show \<open>body (fst (serve env query)) =
        ''{"status": "error", "error": "Internal server error during query: error scanning row: '' @
          Error (Quote env) err @ ''"}'' @ [newline]\<close>
    by (simp add: s body_http_Error)
qed

theorem response_envelope_witness:
  \<open>statusCode (fst (serve (example_env example_db) (request [(''lng'', ''-97.75'')]))) = 400 \<and>
   body (fst (serve (example_env example_db) (request [(''lng'', ''-97.75'')]))) =
     ''{"error": "Missing latitude or longitude parameter"}'' @ [newline] \<and>
   statusCode (fst (serve (example_env (\<lambda>q args. Inr ''[{}]''))
     (request [(''lat'', ''30.25''), (''lng'', ''-97.75'')]))) = 200 \<and>
   body (fst (serve (example_env (\<lambda>q args. Inr ''[{}]''))
     (request [(''lat'', ''30.25''), (''lng'', ''-97.75'')]))) =
     ''{"status": "ok", "features": [{}]}'' \<and>
   statusCode (fst (serve (example_env (\<lambda>q args. Inl ErrNoRows))
     (request [(''lat'', ''30.25''), (''lng'', ''-97.75'')]))) = 200 \<and>
   body (fst (serve (example_env (\<lambda>q args. Inl ErrNoRows))
     (request [(''lat'', ''30.25''), (''lng'', ''-97.75'')]))) =
     ''{"status": "ok", "features": []}'' \<and>
   statusCode (fst (serve (example_env (\<lambda>q args. Inl (DriverError ''pq: connection refused'')))
     (request [(''lat'', ''30.25''), (''lng'', ''-97.75'')]))) = 500 \<and>
   body (fst (serve (example_env (\<lambda>q args. Inl (DriverError ''pq: connection refused'')))
     (request [(''lat'', ''30.25''), (''lng'', ''-97.75'')]))) =
     ''{"status": "error", "error": "Internal server error during query: error scanning row: pq: connection refused"}'' @ [newline]\<close>
  using
    response_envelope [where query = "request [(''lng'', ''-97.75'')]" and env = "example_env example_db"]
    response_envelope [where query = "request [(''lat'', ''30.25''), (''lng'', ''-97.75'')]"
      and env = "example_env (\<lambda>q args. Inr ''[{}]'')"
      and lat = "Float 30.25" and lng = "Float (- 97.75)" and rad = 10000 and payload = "''[{}]''"]
    response_envelope [where query = "request [(''lat'', ''30.25''), (''lng'', ''-97.75'')]"
      and env = "example_env (\<lambda>q args. Inl ErrNoRows)"
      and lat = "Float 30.25" and lng = "Float (- 97.75)" and rad = 10000]
    response_envelope [where query = "request [(''lat'', ''30.25''), (''lng'', ''-97.75'')]"
      and env = "example_env (\<lambda>q args. Inl (DriverError ''pq: connection refused''))"
      and lat = "Float 30.25" and lng = "Float (- 97.75)" and rad = 10000
      and err = "DriverError ''pq: connection refused''"]
  by (simp add: validated_def example_simps Atoi_default)

section \<open>The query result\<close>

lemma search_query_features:
  "search_query pg T x y r = map (jsonb_build_object pg) (row_subquery pg T x y r)"
  by (simp add: search_query_def jsonb_agg_def COALESCE_def)

lemma row_subquery_set:
  "set (row_subquery pg T x y r) \<subseteq>
     select_row pg x y ` {t \<in> set T. ST_DWithin pg (wkb_geometry t) x y r}"
proof -
  have "set (row_subquery pg T x y r) \<subseteq>
      set (sort_key distance_km
        (map (select_row pg x y) (filter (\<lambda>t. ST_DWithin pg (wkb_geometry t) x y r) T)))"
    unfolding row_subquery_def by (rule set_take_subset)
  then show ?thesis by auto
qed

lemma row_subquery_sorted: "sorted (map distance_km (row_subquery pg T x y r))"
  unfolding row_subquery_def take_map [symmetric]
  by (rule sorted_wrt_take) (rule sorted_sort_key)

lemma row_subquery_length: "length (row_subquery pg T x y r) \<le> 25"
  by (simp add: row_subquery_def)

lemma row_subquery_empty:
  assumes "\<forall>t \<in> set T. \<not> ST_DWithin pg (wkb_geometry t) x y r"
  shows "row_subquery pg T x y r = []"
proof -
  have "filter (\<lambda>t. ST_DWithin pg (wkb_geometry t) x y r) T = []"
    using assms by (simp add: filter_empty_conv)
  then show ?thesis by (simp add: row_subquery_def)
qed

lemma feature_distance:
  "map (\<lambda>f. snd (properties f)) (map (jsonb_build_object pg) rows) = map distance_km rows"
  by (simp add: jsonb_build_object_def)

subsection \<open>No matching rows\<close>

text \<open>
  Claim C3. For a request that passes validation and whose query matches no row, the
  aggregate \<open>jsonb_agg\<close> is null and \<open>COALESCE\<close> turns it into the empty array, whose text
  is \<open>[]\<close>. Whether the database hands that text to \<open>Scan\<close> or \<open>Scan\<close> reports
  \<open>sql.ErrNoRows\<close>, the response has status 200 and the body
  \<open>{"status": "ok", "features": []}\<close>: an empty array, not null and not an error.
\<close>

theorem zero_rows_empty_array:
  assumes "validated env query lat lng rad"
    and "\<forall>t \<in> set T. \<not> ST_DWithin pg (wkb_geometry t) lng lat rad"
    and "QueryRowScan env queryStr [ArgFloat64 lng, ArgFloat64 lat, ArgInt rad] =
           Inr (jsonb_out out (search_query pg T lng lat rad)) \<or>
         QueryRowScan env queryStr [ArgFloat64 lng, ArgFloat64 lat, ArgInt rad] = Inl ErrNoRows"
  shows \<open>jsonb_agg (map (jsonb_build_object pg) (row_subquery pg T lng lat rad)) = None \<and>
    search_query pg T lng lat rad = [] \<and>
    jsonb_out out (search_query pg T lng lat rad) = ''[]'' \<and>
    statusCode (fst (serve env query)) = 200 \<and>
    body (fst (serve env query)) = ''{"status": "ok", "features": []}''\<close>
proof -
  have e: "row_subquery pg T lng lat rad = []"
    by (rule row_subquery_empty [OF assms(2)])
  have n: "jsonb_agg (map (jsonb_build_object pg) (row_subquery pg T lng lat rad)) = None"
    by (simp add: e jsonb_agg_def)
  have q: "search_query pg T lng lat rad = []"
    by (simp add: search_query_features e)
  have t: "jsonb_out out (search_query pg T lng lat rad) = ''[]''"
    by (simp add: q jsonb_out_def)
  have s: \<open>fst (serve env query) =
      Fprintf jsonResponse (''{"status": "ok", "features": '' @ ''[]'' @ ''}'')\<close>
    using assms(3) serve_validated [OF assms(1)] by (auto simp: t)
  have d: \<open>doPrintf0 (''{"status": "ok", "features": '' @ ''[]'' @ ''}'') =
      ''{"status": "ok", "features": []}''\<close>
    by (simp add: doPrintf0_plain)
  have b: \<open>body (fst (serve env query)) = ''{"status": "ok", "features": []}''\<close>
    by (simp only: s body_Fprintf d)
  have c: "statusCode (fst (serve env query)) = 200"
    by (simp only: s statusCode_Fprintf)
  from n q t c b show ?thesis by blast
qed

theorem zero_rows_empty_array_witness:
  \<open>search_query example_pg example_table (Float (- 97.75)) (Float 30.25) 50 = [] \<and>
   example_db queryStr [ArgFloat64 (Float (- 97.75)), ArgFloat64 (Float 30.25), ArgInt 50] = Inr ''[]'' \<and>
   statusCode (fst (serve (example_env example_db)
     (request [(''lat'', ''30.25''), (''lng'', ''-97.75''), (''radius'', ''50'')]))) = 200 \<and>
   body (fst (serve (example_env example_db)
     (request [(''lat'', ''30.25''), (''lng'', ''-97.75''), (''radius'', ''50'')]))) =
     ''{"status": "ok", "features": []}''\<close>
proof -
  have v: "validated (example_env example_db)
      (request [(''lat'', ''30.25''), (''lng'', ''-97.75''), (''radius'', ''50'')])
      (Float 30.25) (Float (- 97.75)) 50"
    by (simp add: validated_def example_simps Atoi_def isDigit_def byte_def)
  have w: "\<forall>t \<in> set example_table.
      \<not> ST_DWithin example_pg (wkb_geometry t) (Float (- 97.75)) (Float 30.25) 50"
    by (simp add: example_table_def example_pg_def coord_def)
  have d: "QueryRowScan (example_env example_db) queryStr
        [ArgFloat64 (Float (- 97.75)), ArgFloat64 (Float 30.25), ArgInt 50] =
      Inr (jsonb_out example_out
        (search_query example_pg example_table (Float (- 97.75)) (Float 30.25) 50)) \<or>
    QueryRowScan (example_env example_db) queryStr
        [ArgFloat64 (Float (- 97.75)), ArgFloat64 (Float 30.25), ArgInt 50] = Inl ErrNoRows"
    by (simp add: example_env_def example_db_def)
  show ?thesis
    using zero_rows_empty_array [OF v w d] by (simp add: example_db_def jsonb_out_def)
qed

subsection \<open>Nearest first, within the radius, at most 25\<close>

text \<open>
  Claim C4. For a request that passes validation, the database is asked the query with
  the bind values longitude, latitude and radius, and the features array of that query
  \<^item> holds only features of table rows for which \<open>ST_DWithin\<close> holds with the given
    radius, each with the distance the query computed for it;
  \<^item> is sorted by non-decreasing \<open>distance_km\<close>, the computed distance;
  \<^item> has at most 25 entries.
\<close>

theorem features_within_sorted_capped:
  assumes "validated env query lat lng rad"
  shows "snd (serve env query) = [(queryStr, [ArgFloat64 lng, ArgFloat64 lat, ArgInt rad])] \<and>
    (\<forall>f \<in> set (search_query pg T lng lat rad).
       \<exists>t \<in> set T. ST_DWithin pg (wkb_geometry t) lng lat rad \<and>
         f = jsonb_build_object pg (select_row pg lng lat t) \<and>
         snd (properties f) = ST_Distance pg (wkb_geometry t) lng lat / 1000) \<and>
    sorted (map (\<lambda>f. snd (properties f)) (search_query pg T lng lat rad)) \<and>
    length (search_query pg T lng lat rad) \<le> 25"
proof (intro conjI ballI)
  show "snd (serve env query) = [(queryStr, [ArgFloat64 lng, ArgFloat64 lat, ArgInt rad])]"
    by (rule serve_validated_calls [OF assms])
next
  fix f assume "f \<in> set (search_query pg T lng lat rad)"
  then obtain rw where rw: "rw \<in> set (row_subquery pg T lng lat rad)"
    and f: "f = jsonb_build_object pg rw"
    by (auto simp: search_query_features)
  from rw row_subquery_set [of pg T lng lat rad]
  obtain t where t: "t \<in> set T" "ST_DWithin pg (wkb_geometry t) lng lat rad"
    and sel: "rw = select_row pg lng lat t"
    by auto
  have "snd (properties f) = ST_Distance pg (wkb_geometry t) lng lat / 1000"
    by (simp add: f sel jsonb_build_object_def select_row_def)
  with t f sel
  show "\<exists>t \<in> set T. ST_DWithin pg (wkb_geometry t) lng lat rad \<and>
         f = jsonb_build_object pg (select_row pg lng lat t) \<and>
         snd (properties f) = ST_Distance pg (wkb_geometry t) lng lat / 1000"
    by blast
next
  show "sorted (map (\<lambda>f. snd (properties f)) (search_query pg T lng lat rad))"
    by (simp only: search_query_features feature_distance row_subquery_sorted)
next
  show "length (search_query pg T lng lat rad) \<le> 25"
    by (simp add: search_query_features row_subquery_length)
qed

theorem features_within_sorted_capped_witness:
  "snd (serve (example_env example_db) (request [(''lat'', ''30.25''), (''lng'', ''-97.75'')])) =
     [(queryStr, [ArgFloat64 (Float (- 97.75)), ArgFloat64 (Float 30.25), ArgInt 10000])] \<and>
   search_query example_pg example_table (Float (- 97.75)) (Float 30.25) 10000 =
     [\<lparr>ftype = ''Feature'', geometry = 100, properties = (''B'', 791 / 4000)\<rparr>,
      \<lparr>ftype = ''Feature'', geometry = 5000, properties = (''A'', 20391 / 4000)\<rparr>] \<and>
   sorted (map (\<lambda>f. snd (properties f))
     (search_query example_pg example_table (Float (- 97.75)) (Float 30.25) 10000)) \<and>
   length (search_query example_pg example_table (Float (- 97.75)) (Float 30.25) 10000) \<le> 25"
proof -
  have v: "validated (example_env example_db) (request [(''lat'', ''30.25''), (''lng'', ''-97.75'')])
      (Float 30.25) (Float (- 97.75)) 10000"
    by (simp add: validated_def example_simps Atoi_default)
  have q: "search_query example_pg example_table (Float (- 97.75)) (Float 30.25) 10000 =
     [\<lparr>ftype = ''Feature'', geometry = 100, properties = (''B'', 791 / 4000)\<rparr>,
      \<lparr>ftype = ''Feature'', geometry = 5000, properties = (''A'', 20391 / 4000)\<rparr>]"
    by (simp add: search_query_features row_subquery_def select_row_def jsonb_build_object_def
        example_pg_def example_table_def coord_def)
  show ?thesis
    using features_within_sorted_capped [OF v, of example_pg example_table] q by simp
qed

section \<open>Response headers\<close>

text \<open>
  Claim C5 asks for the allow-all cross-origin header and a JSON content type on every
  response. Every response carries \<open>Access-Control-Allow-Origin: *\<close>. The content type is
  \<open>application/json\<close> on the success response only: \<open>http.Error\<close> resets it, so every
  response with status 400 or 500 is sent as \<open>text/plain; charset=utf-8\<close>.
\<close>

theorem response_headers:
  "sentHeader (fst (serve env query)) ''Access-Control-Allow-Origin'' = Some [''*''] \<and>
   sentHeader (fst (serve env query)) ''Content-Type'' =
     Some [if statusCode (fst (serve env query)) = 200 then ''application/json''
           else ''text/plain; charset=utf-8'']"
proof (cases rule: serve_cases [of env query])
  case (error msg code calls)
  then show ?thesis
    by (auto simp: sentHeader_http_Error statusCode_http_Error errorHeader_values)
next
  case (ok format calls)
  then show ?thesis
    by (simp add: sentHeader_Fprintf statusCode_Fprintf jsonHeader_values)
qed

theorem error_response_is_plain_text:
  "statusCode (fst (serve (example_env example_db) (request [(''lng'', ''-97.75'')]))) = 400 \<and>
   sentHeader (fst (serve (example_env example_db) (request [(''lng'', ''-97.75'')]))) ''Content-Type''
     = Some [''text/plain; charset=utf-8''] \<and>
   sentHeader (fst (serve (example_env example_db) (request [(''lng'', ''-97.75'')]))) ''Content-Type''
     \<noteq> Some [''application/json'']"
  using response_headers [of "example_env example_db" "request [(''lng'', ''-97.75'')]"]
  by (simp add: serve_missing statusCode_http_Error request_def Get_def)

section \<open>The query text and its bind arguments\<close>

text \<open>
  Claim C6. Two requests that pass validation send the same query text, \<open>queryStr\<close>,
  which does not depend on the request; the values of the request are the three bind
  arguments, in the order longitude, latitude, radius. No request at all makes a call
  with another text or another number of arguments.
\<close>

theorem query_text_is_fixed:
  "(validated env1 query1 lat1 lng1 rad1 \<and> validated env2 query2 lat2 lng2 rad2 \<longrightarrow>
      snd (serve env1 query1) = [(queryStr, [ArgFloat64 lng1, ArgFloat64 lat1, ArgInt rad1])] \<and>
      snd (serve env2 query2) = [(queryStr, [ArgFloat64 lng2, ArgFloat64 lat2, ArgInt rad2])] \<and>
      map fst (snd (serve env1 query1)) = map fst (snd (serve env2 query2))) \<and>
   (\<forall>c \<in> set (snd (serve env query)). fst c = queryStr \<and> length (snd c) = 3)"
proof (intro conjI impI)
  assume a: "validated env1 query1 lat1 lng1 rad1 \<and> validated env2 query2 lat2 lng2 rad2"
  then have 1: "snd (serve env1 query1) = [(queryStr, [ArgFloat64 lng1, ArgFloat64 lat1, ArgInt rad1])]"
    and 2: "snd (serve env2 query2) = [(queryStr, [ArgFloat64 lng2, ArgFloat64 lat2, ArgInt rad2])]"
    by (simp_all add: serve_validated_calls)
  show "snd (serve env1 query1) = [(queryStr, [ArgFloat64 lng1, ArgFloat64 lat1, ArgInt rad1])]"
    by (rule 1)
  show "snd (serve env2 query2) = [(queryStr, [ArgFloat64 lng2, ArgFloat64 lat2, ArgInt rad2])]"
    by (rule 2)
  show "map fst (snd (serve env1 query1)) = map fst (snd (serve env2 query2))"
    by (simp add: 1 2)
next
  show "\<forall>c \<in> set (snd (serve env query)). fst c = queryStr \<and> length (snd c) = 3"
    using serve_calls [of env query] by auto
qed

theorem query_text_is_fixed_witness:
  "snd (serve (example_env example_db) (request [(''lat'', ''30.25''), (''lng'', ''-97.75'')])) =
     [(queryStr, [ArgFloat64 (Float (- 97.75)), ArgFloat64 (Float 30.25), ArgInt 10000])] \<and>
   snd (serve (example_env example_db)
       (request [(''lat'', ''999''), (''lng'', ''30.25''), (''radius'', ''500'')])) =
     [(queryStr, [ArgFloat64 (Float 30.25), ArgFloat64 (Float 999), ArgInt 500])] \<and>
   map fst (snd (serve (example_env example_db) (request [(''lat'', ''30.25''), (''lng'', ''-97.75'')]))) =
   map fst (snd (serve (example_env example_db)
       (request [(''lat'', ''999''), (''lng'', ''30.25''), (''radius'', ''500'')])))"
  using query_text_is_fixed
    [where ?env1.0 = "example_env example_db"
       and ?query1.0 = "request [(''lat'', ''30.25''), (''lng'', ''-97.75'')]"
       and ?lat1.0 = "Float 30.25" and ?lng1.0 = "Float (- 97.75)" and ?rad1.0 = 10000
       and ?env2.0 = "example_env example_db"
       and ?query2.0 = "request [(''lat'', ''999''), (''lng'', ''30.25''), (''radius'', ''500'')]"
       and ?lat2.0 = "Float 999" and ?lng2.0 = "Float 30.25" and ?rad2.0 = 500
       and env = "example_env example_db"
       and query = "request [(''lat'', ''30.25''), (''lng'', ''-97.75'')]"]
  by (simp add: validated_def example_simps Atoi_def isDigit_def byte_def)

section \<open>Validation\<close>

subsection \<open>The radius\<close>

text \<open>
  Claim C7. Without a radius (absent or empty) the radius text is \<open>10000\<close>, which parses
  as 10000: with coordinates that parse, the request passes validation with radius
  10000 and that value is the bind argument. A radius that is present is taken as it
  is and must be the text of a decimal integer: a request passes validation only with a
  radius of that form, and with any other radius (such as \<open>10.5\<close>) it does not pass, the
  database is not called and the response is an error.
\<close>

theorem radius_default_or_integer:
  "(Get query ''radius'' = [] \<longrightarrow> Atoi (radiusMetersStr query) = Inr 10000) \<and>
   (Get query ''radius'' = [] \<and> Get query ''lat'' \<noteq> [] \<and> Get query ''lng'' \<noteq> [] \<and>
    ParseFloat env (Get query ''lat'') = Inr lat \<and> ParseFloat env (Get query ''lng'') = Inr lng \<longrightarrow>
      validated env query lat lng 10000 \<and>
      snd (serve env query) = [(queryStr, [ArgFloat64 lng, ArgFloat64 lat, ArgInt 10000])]) \<and>
   (Get query ''radius'' \<noteq> [] \<and> validated env query lat lng rad \<longrightarrow>
      Atoi (Get query ''radius'') = Inr rad \<and> integerSyntax (Get query ''radius'')) \<and>
   (Get query ''radius'' \<noteq> [] \<and> \<not> integerSyntax (Get query ''radius'') \<and>
    Get query ''lat'' \<noteq> [] \<and> Get query ''lng'' \<noteq> [] \<longrightarrow>
      \<not> validated env query lat lng rad \<and>
      snd (serve env query) = [] \<and>
      statusCode (fst (serve env query)) = 500)"
proof (intro conjI impI)
  assume "Get query ''radius'' = []"
  then show "Atoi (radiusMetersStr query) = Inr 10000"
    by (simp add: radiusMetersStr_def Atoi_default)
next
  assume a: "Get query ''radius'' = [] \<and> Get query ''lat'' \<noteq> [] \<and> Get query ''lng'' \<noteq> [] \<and>
    ParseFloat env (Get query ''lat'') = Inr lat \<and> ParseFloat env (Get query ''lng'') = Inr lng"
  then show v: "validated env query lat lng 10000"
    by (simp add: validated_def radiusMetersStr_def Atoi_default)
  show "snd (serve env query) = [(queryStr, [ArgFloat64 lng, ArgFloat64 lat, ArgInt 10000])]"
    by (rule serve_validated_calls [OF v])
next
  assume a: "Get query ''radius'' \<noteq> [] \<and> validated env query lat lng rad"
  then show r: "Atoi (Get query ''radius'') = Inr rad"
    by (auto simp: validated_def radiusMetersStr_def)
  show "integerSyntax (Get query ''radius'')"
    by (rule Atoi_integerSyntax [OF r])
next
  assume a: "Get query ''radius'' \<noteq> [] \<and> \<not> integerSyntax (Get query ''radius'') \<and>
    Get query ''lat'' \<noteq> [] \<and> Get query ''lng'' \<noteq> []"
  then obtain e where e: "Atoi (radiusMetersStr query) = Inl e"
    using not_integerSyntax_Atoi [of "Get query ''radius''"] by (auto simp: radiusMetersStr_def)
  then show "\<not> validated env query lat lng rad"
    by (simp add: validated_def)
  obtain err where
    "getGeoJSONFromDatabase env (Get query ''lat'') (Get query ''lng'') (radiusMetersStr query)
       = (Inl err, [])"
    using getGeoJSON_invalid [of env "Get query ''lat''" "Get query ''lng''" "radiusMetersStr query"] e
    by blast
  with a have s: "serve env query = (http_Error jsonResponse
       (''{\"status\": \"error\", \"error\": \"Internal server error during query: '' @
          Error (Quote env) err @ ''\"}'') 500, [])"
    by (simp add: serve_invalid)
  show "snd (serve env query) = []"
    by (simp add: s)
  show "statusCode (fst (serve env query)) = 500"
    by (simp add: s statusCode_http_Error)
qed

theorem radius_default_or_integer_witness:
  "Atoi (radiusMetersStr (request [(''lat'', ''30.25''), (''lng'', ''-97.75'')])) = Inr 10000 \<and>
   snd (serve (example_env example_db) (request [(''lat'', ''30.25''), (''lng'', ''-97.75'')])) =
     [(queryStr, [ArgFloat64 (Float (- 97.75)), ArgFloat64 (Float 30.25), ArgInt 10000])] \<and>
   integerSyntax ''500'' \<and>
   \<not> integerSyntax ''10.5'' \<and>
   snd (serve (example_env example_db)
     (request [(''lat'', ''30.25''), (''lng'', ''-97.75''), (''radius'', ''10.5'')])) = [] \<and>
   statusCode (fst (serve (example_env example_db)
     (request [(''lat'', ''30.25''), (''lng'', ''-97.75''), (''radius'', ''10.5'')]))) = 500"
  using
    radius_default_or_integer
      [where query = "request [(''lat'', ''30.25''), (''lng'', ''-97.75'')]"
         and env = "example_env example_db" and lat = "Float 30.25" and lng = "Float (- 97.75)"]
    radius_default_or_integer
      [where query = "request [(''lat'', ''30.25''), (''lng'', ''-97.75''), (''radius'', ''500'')]"
         and env = "example_env example_db" and lat = "Float 30.25" and lng = "Float (- 97.75)"
         and rad = 500]
    radius_default_or_integer
      [where query = "request [(''lat'', ''30.25''), (''lng'', ''-97.75''), (''radius'', ''10.5'')]"
         and env = "example_env example_db" and lat = "Float 30.25" and lng = "Float (- 97.75)"
         and rad = 10]
  by (simp add: validated_def example_simps Atoi_def integerSyntax_def isDigit_def byte_def)

subsection \<open>Missing coordinates\<close>

text \<open>
  Claim C8 asks for a message that names the offending parameter. The handler has one
  message for both coordinates: a request without \<open>lat\<close> (with \<open>lng\<close> present) and a
  request without \<open>lng\<close> (with \<open>lat\<close> present) get the same body, so the message does
  not tell which parameter is missing.
\<close>

theorem missing_coordinate_message_same_for_both:
  \<open>Get (request [(''lng'', ''-97.75'')]) ''lat'' = [] \<and>
   Get (request [(''lng'', ''-97.75'')]) ''lng'' = ''-97.75'' \<and>
   Get (request [(''lat'', ''30.25'')]) ''lat'' = ''30.25'' \<and>
   Get (request [(''lat'', ''30.25'')]) ''lng'' = [] \<and>
   body (fst (serve (example_env example_db) (request [(''lng'', ''-97.75'')]))) =
     ''{"error": "Missing latitude or longitude parameter"}'' @ [newline] \<and>
   body (fst (serve (example_env example_db) (request [(''lat'', ''30.25'')]))) =
     ''{"error": "Missing latitude or longitude parameter"}'' @ [newline] \<and>
   body (fst (serve (example_env example_db) (request [(''lng'', ''-97.75'')]))) =
   body (fst (serve (example_env example_db) (request [(''lat'', ''30.25'')])))\<close>
proof -
  have 1: "Get (request [(''lng'', ''-97.75'')]) ''lat'' = [] \<or>
      Get (request [(''lng'', ''-97.75'')]) ''lng'' = []"
    by (simp add: request_def Get_def)
  have 2: "Get (request [(''lat'', ''30.25'')]) ''lat'' = [] \<or>
      Get (request [(''lat'', ''30.25'')]) ''lng'' = []"
    by (simp add: request_def Get_def)
  have g: "Get (request [(''lng'', ''-97.75'')]) ''lat'' = []"
    "Get (request [(''lng'', ''-97.75'')]) ''lng'' = ''-97.75''"
    "Get (request [(''lat'', ''30.25'')]) ''lat'' = ''30.25''"
    "Get (request [(''lat'', ''30.25'')]) ''lng'' = []"
    by (simp_all add: request_def Get_def)
  show ?thesis
    using g by (simp add: serve_missing [OF 1] serve_missing [OF 2] body_http_Error)
qed

text \<open>
  Claim C8, amended. Whenever the \<open>lat\<close> or the \<open>lng\<close> parameter is missing (or empty),
  whatever the other parameters and the database are, the response has status 400 and
  the body is the one fixed, non-empty message
  \<open>{"error": "Missing latitude or longitude parameter"}\<close> followed by a newline, and the
  database is not called. The message mentions both the latitude and the longitude and
  is the same whichever of them is missing: any two such requests get the same response.
\<close>

theorem missing_coordinate_fixed_message:
  assumes "Get query ''lat'' = [] \<or> Get query ''lng'' = []"
    and "Get query' ''lat'' = [] \<or> Get query' ''lng'' = []"
  shows \<open>statusCode (fst (serve env query)) = 400 \<and>
         body (fst (serve env query)) =
           ''{"error": "Missing latitude or longitude parameter"}'' @ [newline] \<and>
         body (fst (serve env query)) \<noteq> [] \<and>
         sublist ''latitude'' (body (fst (serve env query))) \<and>
         sublist ''longitude'' (body (fst (serve env query))) \<and>
         snd (serve env query) = [] \<and>
         fst (serve env query) = fst (serve env' query')\<close>
proof -
  have b: \<open>body (fst (serve env query)) =
      ''{"error": "Missing latitude or longitude parameter"}'' @ [newline]\<close>
    using assms(1) by (simp add: serve_missing body_http_Error)
  have s1: \<open>sublist ''latitude'' (''{"error": "Missing latitude or longitude parameter"}'' @ [newline])\<close>
    by code_simp
  have s2: \<open>sublist ''longitude'' (''{"error": "Missing latitude or longitude parameter"}'' @ [newline])\<close>
    by code_simp
  have e: "fst (serve env query) = fst (serve env' query')"
    by (simp add: serve_missing [OF assms(1)] serve_missing [OF assms(2)])
  have m: \<open>statusCode (fst (serve env query)) = 400 \<and>
      body (fst (serve env query)) =
        ''{"error": "Missing latitude or longitude parameter"}'' @ [newline] \<and>
      body (fst (serve env query)) \<noteq> [] \<and>
      sublist ''latitude'' (body (fst (serve env query))) \<and>
      sublist ''longitude'' (body (fst (serve env query))) \<and>
      snd (serve env query) = []\<close>
    using assms(1) b s1 s2 by (simp add: serve_missing statusCode_http_Error)
  from m e show ?thesis by blast
qed

theorem missing_coordinate_fixed_message_witness:
  \<open>statusCode (fst (serve (example_env example_db) (request [(''lng'', ''-97.75''), (''radius'', ''500'')]))) = 400 \<and>
   body (fst (serve (example_env example_db) (request [(''lng'', ''-97.75''), (''radius'', ''500'')]))) =
     ''{"error": "Missing latitude or longitude parameter"}'' @ [newline] \<and>
   snd (serve (example_env example_db) (request [(''lng'', ''-97.75''), (''radius'', ''500'')])) = [] \<and>
   fst (serve (example_env example_db) (request [(''lng'', ''-97.75''), (''radius'', ''500'')])) =
   fst (serve (example_env (\<lambda>q args. Inl ErrNoRows)) (request [(''lat'', ''30.25'')]))\<close>
proof -
  have 1: "Get (request [(''lng'', ''-97.75''), (''radius'', ''500'')]) ''lat'' = [] \<or>
      Get (request [(''lng'', ''-97.75''), (''radius'', ''500'')]) ''lng'' = []"
    by (simp add: request_def Get_def)
  have 2: "Get (request [(''lat'', ''30.25'')]) ''lat'' = [] \<or>
      Get (request [(''lat'', ''30.25'')]) ''lng'' = []"
    by (simp add: request_def Get_def)
  show ?thesis
    using missing_coordinate_fixed_message
      [OF 1 2, where env = "example_env example_db"
         and env' = "example_env (\<lambda>q args. Inl ErrNoRows)"]
    by blast
qed

subsection \<open>No range checks\<close>

text \<open>
  Claim C10. Validation checks no range. Whatever values the latitude and longitude
  texts parse to, and whatever integer the radius text parses to (zero and negative
  ones too), \<open>getGeoJSONFromDatabase\<close> raises no validation error and calls the database
  once, with exactly those values as bind arguments; its result is the outcome of that
  call.
\<close>

theorem no_range_checks:
  assumes "ParseFloat env centerLatStr = Inr lat"
    and "ParseFloat env centerLngStr = Inr lng"
    and "Atoi radiusStr = Inr rad"
  shows "getGeoJSONFromDatabase env centerLatStr centerLngStr radiusStr =
     (case QueryRowScan env queryStr [ArgFloat64 lng, ArgFloat64 lat, ArgInt rad] of
        Inl err \<Rightarrow> if err = ErrNoRows then Inr ''[]'' else Inl (Errorf ''error scanning row: '' err)
      | Inr featureCollection \<Rightarrow> Inr featureCollection,
      [(queryStr, [ArgFloat64 lng, ArgFloat64 lat, ArgInt rad])])"
  using assms by (rule getGeoJSON_validated)

theorem no_range_checks_witness:
  "Atoi ''-5'' = Inr (- 5) \<and> Atoi ''0'' = Inr 0 \<and>
   snd (getGeoJSONFromDatabase (example_env example_db) ''999'' ''NaN'' ''-5'') =
     [(queryStr, [ArgFloat64 NaN, ArgFloat64 (Float 999), ArgInt (- 5)])] \<and>
   snd (getGeoJSONFromDatabase (example_env example_db) ''Inf'' ''999'' ''0'') =
     [(queryStr, [ArgFloat64 (Float 999), ArgFloat64 PosInf, ArgInt 0])]"
proof -
  have 1: "ParseFloat (example_env example_db) ''999'' = Inr (Float 999)"
    and 2: "ParseFloat (example_env example_db) ''NaN'' = Inr NaN"
    and 3: "ParseFloat (example_env example_db) ''Inf'' = Inr PosInf"
    by (simp_all add: example_env_def exampleParseFloat_def)
  have 4: "Atoi ''-5'' = Inr (- 5)" and 5: "Atoi ''0'' = Inr 0"
    by (simp_all add: Atoi_def isDigit_def byte_def)
  show ?thesis
    using no_range_checks [OF 1 2 4] no_range_checks [OF 3 1 5] 4 5 by simp
qed

section \<open>Start-up\<close>

lemma initDB_Ping_fails:
  assumes "sql_Open p ''postgres'' (connectionString p) = None" and "Ping p = Some err"
  shows "fst (initDB p) = Some (Errorf ''db.Ping failed: '' err)"
  using assms by (simp add: initDB_def Let_def)

lemma initDB_never_serves: "list_all (\<lambda>ev. \<not> serves ev) (snd (initDB p))"
  by (simp add: initDB_def Let_def split: option.split)

text \<open>
  Claim C9. When the connectivity check at start-up fails, \<open>initDB\<close> returns the error
  \<open>db.Ping failed: <cause>\<close>, and whenever \<open>initDB\<close> returns an error the whole run of
  \<open>main\<close> is the events of \<open>initDB\<close>, then the logged cause, then exit with status 1: no
  handler is registered and the listener is not started.
\<close>

theorem startup_failure_never_serves:
  "(sql_Open p ''postgres'' (connectionString p) = None \<and> Ping p = Some err \<longrightarrow>
      fst (initDB p) = Some (Errorf ''db.Ping failed: '' err)) \<and>
   (fst (initDB p) = Some e \<longrightarrow>
      main p = snd (initDB p) @
        [Log (''Failed to initialize database: '' @ Error (ErrQuote p) e), Exit 1] \<and>
      list_all (\<lambda>ev. \<not> serves ev) (main p))"
proof (intro conjI impI)
  assume "sql_Open p ''postgres'' (connectionString p) = None \<and> Ping p = Some err"
  then show "fst (initDB p) = Some (Errorf ''db.Ping failed: '' err)"
    by (simp add: initDB_Ping_fails)
next
  assume a: "fst (initDB p) = Some e"
  then show m: "main p = snd (initDB p) @
      [Log (''Failed to initialize database: '' @ Error (ErrQuote p) e), Exit 1]"
    by (cases "initDB p") (simp add: main_def)
  show "list_all (\<lambda>ev. \<not> serves ev) (main p)"
    using initDB_never_serves [of p] by (simp add: m)
qed

theorem startup_failure_never_serves_witness:
  "main example_process =
     [Log ''WARNING: DB_PASSWORD environment variable not set. Assuming unsecure local connection.'',
      SqlOpen ''postgres''
        ''host=127.0.0.1 port=5432 user=postgres password= database=recycling_db sslmode=disable'',
      SetMaxIdleConns 5, SetMaxOpenConns 7, SetConnMaxLifetime 1800, DbPing,
      Log ''Failed to initialize database: db.Ping failed: dial tcp 127.0.0.1:5432: connect: connection refused'',
      Exit 1] \<and>
   list_all (\<lambda>ev. \<not> serves ev) (main example_process)"
  using startup_failure_never_serves
    [where p = example_process
       and err = "DriverError ''dial tcp 127.0.0.1:5432: connect: connection refused''"
       and e = "Errorf ''db.Ping failed: ''
         (DriverError ''dial tcp 127.0.0.1:5432: connect: connection refused'')"]
  by (simp add: example_process_def initDB_def connectionString_def Let_def)

end
